theory Spec2Isabelle
  imports Complex_Main
begin

section \<open>Values shared by the agent and its collaborators\<close>

text \<open>
  Python floats and the entries of torch tensors are modelled as real numbers; a tensor
  is the list of its entries, a network's \<^verbatim>\<open>parameters()\<close> is the list of its
  parameter tensors. Elementwise tensor operations act on tensors of one shape, which is
  what two networks built by the same constructor have.
\<close>

datatype error = IndexError | ValueError | RuntimeError | FileNotFoundError

type_synonym tensor = "real list"
type_synonym params = "tensor list"

text \<open>An experience tuple \<^verbatim>\<open>(state, action, reward, next_state, done)\<close>.\<close>

type_synonym transition = "tensor \<times> nat \<times> real \<times> tensor \<times> bool"

definition t_state :: "transition \<Rightarrow> tensor" where
  "t_state t = fst t"

definition t_action :: "transition \<Rightarrow> nat" where
  "t_action t = fst (snd t)"

definition t_reward :: "transition \<Rightarrow> real" where
  "t_reward t = fst (snd (snd t))"

definition t_next_state :: "transition \<Rightarrow> tensor" where
  "t_next_state t = fst (snd (snd (snd t)))"

definition t_done :: "transition \<Rightarrow> bool" where
  "t_done t = snd (snd (snd (snd t)))"

section \<open>The n-step accumulator (\<^verbatim>\<open>experience_replay.NStepBuffer\<close>)\<close>

text \<open>
  Modelled from the spec: the state of \<^verbatim>\<open>NStepBuffer\<close> (section 3, N-Step
  Window): the discount, the window length \<open>n\<close> and the ordered window of the raw
  transitions of the current episode, oldest first.
\<close>

record nstep_buffer =
  nsb_gamma :: real
  nsb_n_step :: nat
  nsb_window :: "transition list"

text \<open>
  Modelled from the spec: the constructor of \<^verbatim>\<open>NStepBuffer\<close>, whose file
  \<^verbatim>\<open>experience_replay.py\<close> is not among the sources. The agent calls it as
  \<^verbatim>\<open>NStepBuffer(observation_space.shape, gamma, n_step)\<close>; the window starts empty.
\<close>

definition NStepBuffer :: "nat list \<Rightarrow> real \<Rightarrow> nat \<Rightarrow> nstep_buffer" where
  "NStepBuffer shape g n = \<lparr>nsb_gamma = g, nsb_n_step = n, nsb_window = []\<rparr>"

text \<open>
  Modelled from the spec: the discounted sum over the window,
  \<open>\<Sum> \<gamma>^i r_i\<close> for \<open>i = 0 .. window_len - 1\<close> (section 4.1).
\<close>

definition discounted_sum :: "real \<Rightarrow> real list \<Rightarrow> real" where
  "discounted_sum g rs = (\<Sum>i\<leftarrow>[0..<length rs]. g ^ i * rs ! i)"

text \<open>
  Modelled from the spec: the synthesized transition of a non-empty window: state and
  action of the oldest entry, the discounted sum of the rewards, next state and done flag
  of the newest entry (section 4.1).
\<close>

definition synthesize :: "real \<Rightarrow> transition list \<Rightarrow> transition" where
  "synthesize g w =
     (t_state (hd w), t_action (hd w), discounted_sum g (map t_reward w),
      t_next_state (last w), t_done (last w))"

text \<open>
  Modelled from the spec: what one call of \<^verbatim>\<open>NStepBuffer.update\<close> emits
  (section 4.1; the method is absent from the sources). The new step is appended to the
  window. A step that ends the episode drains the accumulator: one synthesized transition
  for every remaining partial window, the whole window first and each next one shorter by
  its oldest entry. Otherwise nothing is emitted while the window holds fewer than \<open>n\<close>
  entries, and the synthesized transition of the window once it holds \<open>n\<close>.
\<close>

definition nsb_emit :: "nstep_buffer \<Rightarrow> transition \<Rightarrow> transition list" where
  "nsb_emit b t =
     (let w = nsb_window b @ [t] in
      if t_done t then map (\<lambda>k. synthesize (nsb_gamma b) (drop k w)) [0..<length w]
      else if length w < nsb_n_step b then []
      else [synthesize (nsb_gamma b) w])"

text \<open>
  Modelled from the spec: \<^verbatim>\<open>NStepBuffer.update\<close>, absent from the sources. By its
  contract it returns \<^verbatim>\<open>Optional[Transition]\<close>, and the agent's
  \<^verbatim>\<open>remember\<close> reads the result as one 5-tuple: nothing when nothing is emitted,
  and otherwise the synthesized transition of the window as it stands at the call, the
  first of those emitted. The window is emptied when the step ended the episode, keeps the
  new step while it holds fewer than \<open>n\<close> entries, and loses its oldest entry after an
  emission.
\<close>

definition nsb_update :: "nstep_buffer \<Rightarrow> transition \<Rightarrow> transition option \<times> nstep_buffer" where
  "nsb_update b t =
     (let w = nsb_window b @ [t] in
      (case nsb_emit b t of [] \<Rightarrow> None | e # es \<Rightarrow> Some e,
       b\<lparr>nsb_window := (if t_done t then [] else if length w < nsb_n_step b then w else tl w)\<rparr>))"

section \<open>The prioritized replay store (\<^verbatim>\<open>experience_replay.ReplayBuffer\<close>)\<close>

text \<open>
  Modelled from the spec: the state of \<^verbatim>\<open>ReplayBuffer\<close> (section 3, Priority
  Replay Store): the capacity, the priority exponent and the priority floor fixed at
  construction, the parallel arrays, the write cursor, the occupied size and the largest
  priority seen.
\<close>

record replay_buffer =
  rb_capacity :: nat
  rb_alpha :: real
  rb_epsilon :: real
  rb_states :: "tensor list"
  rb_actions :: "nat list"
  rb_rewards :: "real list"
  rb_next_states :: "tensor list"
  rb_dones :: "bool list"
  rb_priorities :: "real list"
  rb_cursor :: nat
  rb_size :: nat
  rb_max_priority :: real

text \<open>
  Modelled from the spec: the constructor of \<^verbatim>\<open>ReplayBuffer\<close> (file
  \<^verbatim>\<open>experience_replay.py\<close>, not among the sources), called by the agent as
  \<^verbatim>\<open>ReplayBuffer(max_memory, observation_space.shape, alpha, 1e-4)\<close>: parallel
  arrays of fixed capacity, a write cursor, the occupied size, and the default priority
  of a fresh entry.
\<close>

definition ReplayBuffer :: "nat \<Rightarrow> nat list \<Rightarrow> real \<Rightarrow> real \<Rightarrow> replay_buffer" where
  "ReplayBuffer cap shape a e =
     \<lparr>rb_capacity = cap, rb_alpha = a, rb_epsilon = e,
      rb_states = replicate cap (replicate (prod_list shape) 0),
      rb_actions = replicate cap 0,
      rb_rewards = replicate cap 0,
      rb_next_states = replicate cap (replicate (prod_list shape) 0),
      rb_dones = replicate cap False,
      rb_priorities = replicate cap 0,
      rb_cursor = 0, rb_size = 0, rb_max_priority = 1\<rparr>"

text \<open>
  Modelled from the spec: \<^verbatim>\<open>ReplayBuffer.update\<close> (section 4.2): the transition is
  written at the cursor with the largest priority seen so far, the cursor advances modulo
  the capacity and the size grows up to the capacity. A store of capacity zero has no slot
  to write.
\<close>

definition rb_update :: "replay_buffer \<Rightarrow> transition \<Rightarrow> error + replay_buffer" where
  "rb_update rb t =
     (if rb_capacity rb = 0 then Inl IndexError
      else let i = rb_cursor rb in
        Inr (rb\<lparr>rb_states := (rb_states rb)[i := t_state t],
                rb_actions := (rb_actions rb)[i := t_action t],
                rb_rewards := (rb_rewards rb)[i := t_reward t],
                rb_next_states := (rb_next_states rb)[i := t_next_state t],
                rb_dones := (rb_dones rb)[i := t_done t],
                rb_priorities := (rb_priorities rb)[i := rb_max_priority rb],
                rb_cursor := (i + 1) mod rb_capacity rb,
                rb_size := min (rb_size rb + 1) (rb_capacity rb)\<rparr>))"

text \<open>Modelled from the spec: \<^verbatim>\<open>__len__\<close> exposes the occupied count.\<close>

definition rb_len :: "replay_buffer \<Rightarrow> nat" where
  "rb_len rb = rb_size rb"

type_synonym batch =
  "tensor list \<times> nat list \<times> real list \<times> tensor list \<times> bool list \<times> real list \<times> nat list"

text \<open>
  Modelled from the spec: \<^verbatim>\<open>ReplayBuffer.sample\<close> (section 4.2). The indices
  drawn by the random generator are the argument \<open>draw\<close>; the result holds the stored
  fields at those indices, the normalized priorities
  \<open>priority_i^alpha / \<Sum>_j priority_j^alpha\<close> over the occupied slots, and the
  indices. A batch larger than the occupied size is refused.
\<close>

definition rb_sample :: "replay_buffer \<Rightarrow> nat \<Rightarrow> nat list \<Rightarrow> error + batch" where
  "rb_sample rb n draw =
     (if rb_size rb < n then Inl ValueError
      else let scaled = map (\<lambda>p. p powr rb_alpha rb) (take (rb_size rb) (rb_priorities rb));
               total = sum_list scaled in
        Inr (map (\<lambda>i. rb_states rb ! i) draw,
             map (\<lambda>i. rb_actions rb ! i) draw,
             map (\<lambda>i. rb_rewards rb ! i) draw,
             map (\<lambda>i. rb_next_states rb ! i) draw,
             map (\<lambda>i. rb_dones rb ! i) draw,
             map (\<lambda>i. scaled ! i / total) draw,
             draw))"

text \<open>
  A draw the generator can produce for a batch of \<open>n\<close>: \<open>n\<close> indices of occupied
  slots, repetitions allowed.
\<close>

definition valid_draw :: "replay_buffer \<Rightarrow> nat \<Rightarrow> nat list \<Rightarrow> bool" where
  "valid_draw rb n draw \<longleftrightarrow> length draw = n \<and> list_all (\<lambda>i. i < rb_size rb) draw"

text \<open>
  Modelled from the spec: \<^verbatim>\<open>ReplayBuffer.update_priority(indices, td_errors)\<close>
  (section 4.2): the priority at each given index becomes \<open>|td_error| + epsilon_floor\<close>,
  in the order given, and the largest priority seen is kept for fresh entries.
\<close>

definition rb_update_priority :: "replay_buffer \<Rightarrow> nat list \<Rightarrow> real list \<Rightarrow> replay_buffer" where
  "rb_update_priority rb indices td_errors =
     fold (\<lambda>(i, e) b. b\<lparr>rb_priorities := (rb_priorities b)[i := \<bar>e\<bar> + rb_epsilon b],
                         rb_max_priority := max (rb_max_priority b) (\<bar>e\<bar> + rb_epsilon b)\<rparr>)
          (zip indices td_errors) rb"

section \<open>The collaborators of the agent\<close>

text \<open>
  The Q-network (\<^verbatim>\<open>dqn.Network\<close>), automatic differentiation and the Adam
  optimizer are opaque to the agent and are parameters of the model: \<open>forward\<close> gives the
  action values of one observation under given parameters; \<open>backward\<close> gives the gradient
  of the final loss with respect to each parameter tensor, from the parameters, the batch
  of states and actions, the targets and the weights; \<open>opt_init\<close> builds the optimizer
  state from the parameters and the learning rate; \<open>opt_step\<close> applies one optimizer step
  to the parameters with the given gradients.
\<close>

record 'opt collab =
  forward :: "params \<Rightarrow> tensor \<Rightarrow> real list"
  backward :: "params \<Rightarrow> tensor list \<Rightarrow> nat list \<Rightarrow> real list \<Rightarrow> real list \<Rightarrow> params"
  opt_init :: "params \<Rightarrow> real \<Rightarrow> 'opt"
  opt_step :: "'opt \<Rightarrow> params \<Rightarrow> params \<Rightarrow> 'opt \<times> params"

section \<open>The agent (\<^verbatim>\<open>agents/dqn/agent.py\<close>, class \<^verbatim>\<open>DQNAgent\<close>)\<close>

record 'opt agent =
  batch_size :: nat
  alpha :: real
  loss_param :: real
  loss_param_decay :: real
  gamma :: real
  tau :: real
  n_step :: nat
  memory :: replay_buffer
  n_step_buffer :: nstep_buffer
  num_actions :: nat
  epsilon :: real
  epsilon_decay :: real
  min_epsilon :: real
  dqn :: params
  target_dqn :: params
  optimizer :: 'opt

text \<open>
  \<^verbatim>\<open>tensor.data.copy_(src)\<close> for tensors of one shape, and the loop
  \<^verbatim>\<open>for a, b in zip(dst.parameters(), src.parameters()): a.data.copy_(b)\<close>, which
  overwrites the leading tensors of \<open>dst\<close> and leaves those beyond the shorter list.
\<close>

definition copy_tensor :: "tensor \<Rightarrow> tensor \<Rightarrow> tensor" where
  "copy_tensor dst src = map snd (zip dst src)"

definition copy_params :: "params \<Rightarrow> params \<Rightarrow> params" where
  "copy_params dst src =
     map (\<lambda>(a, b). copy_tensor a b) (zip dst src) @ drop (length src) dst"

text \<open>
  \<^verbatim>\<open>DQNAgent.__init__\<close>. \<open>net1\<close> and \<open>net2\<close> are the freshly initialised
  parameters of the two \<^verbatim>\<open>Network\<close> objects. The copy loop binds
  \<^verbatim>\<open>target_param\<close> to the parameters of \<^verbatim>\<open>self.dqn\<close> and \<^verbatim>\<open>param\<close> to
  those of \<^verbatim>\<open>self.target_dqn\<close>, so it writes into the online network.
\<close>

definition DQNAgent ::
  "'opt collab \<Rightarrow> params \<Rightarrow> params \<Rightarrow> nat list \<Rightarrow> nat \<Rightarrow> nat \<Rightarrow> nat \<Rightarrow> nat \<Rightarrow> real \<Rightarrow> real \<Rightarrow> real
     \<Rightarrow> real \<Rightarrow> real \<Rightarrow> real \<Rightarrow> real \<Rightarrow> real \<Rightarrow> real \<Rightarrow> 'opt agent" where
  "DQNAgent c net1 net2 shape n_actions bs max_memory n a b b_decay lr g t eps_init eps_decay eps_min =
     (let online = copy_params net1 net2 in
      \<lparr>batch_size = bs, alpha = a, loss_param = b, loss_param_decay = b_decay,
       gamma = g, tau = t, n_step = n,
       memory = ReplayBuffer max_memory shape a (1 / 10000),
       n_step_buffer = NStepBuffer shape g n,
       num_actions = n_actions,
       epsilon = eps_init, epsilon_decay = eps_decay, min_epsilon = eps_min,
       dqn = online, target_dqn = net2,
       optimizer = opt_init c online lr\<rparr>)"

text \<open>
  \<^verbatim>\<open>argmax(dim=-1)\<close> of one row of action values: the first index of the largest
  value; torch refuses an empty row.
\<close>

definition argmax :: "real list \<Rightarrow> error + nat" where
  "argmax q =
     (if q = [] then Inl IndexError
      else Inr (length (takeWhile (\<lambda>x. x \<noteq> Max (set q)) q)))"

text \<open>
  \<^verbatim>\<open>DQNAgent.act\<close>. \<open>u\<close> is the value of \<^verbatim>\<open>np.random.random()\<close> and
  \<open>sampled\<close> the value \<^verbatim>\<open>action_space.sample()\<close> would give.
\<close>

definition act :: "'opt collab \<Rightarrow> real \<Rightarrow> nat \<Rightarrow> tensor \<Rightarrow> bool \<Rightarrow> 'opt agent \<Rightarrow> error + (nat \<times> 'opt agent)" where
  "act c u sampled state evaluate ag =
     (let ag = ag\<lparr>epsilon := epsilon ag * epsilon_decay ag\<rparr>;
          ag = ag\<lparr>epsilon := max (epsilon ag) (min_epsilon ag)\<rparr>
      in if u < epsilon ag \<and> \<not> evaluate then Inr (sampled, ag)
         else (case argmax (forward c (dqn ag) state) of
                 Inl e \<Rightarrow> Inl e
               | Inr action \<Rightarrow> Inr (action, ag)))"

text \<open>\<^verbatim>\<open>DQNAgent.remember\<close>.\<close>

definition remember :: "transition \<Rightarrow> 'opt agent \<Rightarrow> error + 'opt agent" where
  "remember t ag =
     (case nsb_update (n_step_buffer ag) t of
        (experience, nsb) \<Rightarrow>
          (let ag = ag\<lparr>n_step_buffer := nsb\<rparr> in
           case experience of
             None \<Rightarrow> Inr ag
           | Some e \<Rightarrow>
               (case rb_update (memory ag) e of
                  Inl err \<Rightarrow> Inl err
                | Inr m \<Rightarrow> Inr (ag\<lparr>memory := m\<rparr>))))"

text \<open>
  \<^verbatim>\<open>DQNAgent.update_target\<close>: each target tensor is scaled in place by
  \<open>1 - tau\<close>, then \<open>tau\<close> times the online tensor is added to it, for the pairs
  that \<^verbatim>\<open>zip\<close> yields.
\<close>

definition soft_update_tensor :: "real \<Rightarrow> tensor \<Rightarrow> tensor \<Rightarrow> tensor" where
  "soft_update_tensor t target_param param =
     (let scaled = map (\<lambda>x. x * (1 - t)) target_param
      in map (\<lambda>(x, y). x + t * y) (zip scaled param))"

definition update_target :: "'opt agent \<Rightarrow> 'opt agent" where
  "update_target ag =
     ag\<lparr>target_dqn :=
          map (\<lambda>(target_param, param). soft_update_tensor (tau ag) target_param param)
              (zip (target_dqn ag) (dqn ag))
          @ drop (length (dqn ag)) (target_dqn ag)\<rparr>"

text \<open>
  \<^verbatim>\<open>DQNAgent.save_model\<close> and \<^verbatim>\<open>load_model\<close>. The file system maps a path to
  the parameter snapshot stored there; \<^verbatim>\<open>load_state_dict\<close> refuses a snapshot whose
  tensors do not have the shapes of the network.
\<close>

type_synonym files = "string \<Rightarrow> params option"

definition shapes :: "params \<Rightarrow> nat list" where
  "shapes ps = map length ps"

definition save_model :: "string \<Rightarrow> 'opt agent \<Rightarrow> files \<Rightarrow> files" where
  "save_model path ag fs = fs(path \<mapsto> dqn ag)"

definition load_state_dict :: "params \<Rightarrow> params \<Rightarrow> error + params" where
  "load_state_dict net sd = (if shapes sd = shapes net then Inr sd else Inl RuntimeError)"

definition load_model :: "files \<Rightarrow> string \<Rightarrow> 'opt agent \<Rightarrow> error + 'opt agent" where
  "load_model fs path ag =
     (case fs path of
        None \<Rightarrow> Inl FileNotFoundError
      | Some sd \<Rightarrow>
          (case load_state_dict (dqn ag) sd of
             Inl e \<Rightarrow> Inl e
           | Inr online \<Rightarrow>
               (case fs path of
                  None \<Rightarrow> Inl FileNotFoundError
                | Some sd2 \<Rightarrow>
                    (case load_state_dict (target_dqn ag) sd2 of
                       Inl e \<Rightarrow> Inl e
                     | Inr target \<Rightarrow> Inr (ag\<lparr>dqn := online, target_dqn := target\<rparr>)))))"

section \<open>The training step (\<^verbatim>\<open>DQNAgent.train\<close>)\<close>

text \<open>Running a fallible function over a list, stopping at the first error.\<close>

fun map_err :: "('a \<Rightarrow> error + 'b) \<Rightarrow> 'a list \<Rightarrow> error + 'b list" where
  "map_err f [] = Inr []"
| "map_err f (x # xs) =
     (case f x of
        Inl e \<Rightarrow> Inl e
      | Inr y \<Rightarrow> (case map_err f xs of Inl e \<Rightarrow> Inl e | Inr ys \<Rightarrow> Inr (y # ys)))"

text \<open>
  \<^verbatim>\<open>q.gather(-1, actions.long())\<close>: the value of the taken action in each row;
  torch refuses an index outside the row.
\<close>

definition gather :: "real list list \<Rightarrow> nat list \<Rightarrow> error + real list" where
  "gather q actions =
     (if length q \<noteq> length actions then Inl RuntimeError
      else map_err (\<lambda>(row, a). if a < length row then Inr (row ! a) else Inl RuntimeError)
             (zip q actions))"

text \<open>\<^verbatim>\<open>torch.max(next_q, -1)[0]\<close>: the largest value of each row.\<close>

definition row_max :: "real list list \<Rightarrow> error + real list" where
  "row_max q = map_err (\<lambda>row. if row = [] then Inl RuntimeError else Inr (Max (set row))) q"

text \<open>
  \<^verbatim>\<open>rewards + (1 - dones) * (self.gamma ** self.n_step) * max_next_q\<close>,
  elementwise.
\<close>

definition td_target :: "real \<Rightarrow> nat \<Rightarrow> real list \<Rightarrow> bool list \<Rightarrow> real list \<Rightarrow> real list" where
  "td_target g n rewards dones max_next_q =
     map (\<lambda>(r, d, m). r + (1 - of_bool d) * (g ^ n) * m) (zip rewards (zip dones max_next_q))"

text \<open>\<^verbatim>\<open>F.mse_loss(curr_q, target, reduction="none")\<close>.\<close>

definition mse_loss :: "real list \<Rightarrow> real list \<Rightarrow> real list" where
  "mse_loss curr_q target = map (\<lambda>(q, t). (q - t)\<^sup>2) (zip curr_q target)"

text \<open>\<^verbatim>\<open>torch.mean\<close> of a non-empty tensor.\<close>

definition mean :: "real list \<Rightarrow> real" where
  "mean xs = sum_list xs / real (length xs)"

text \<open>\<^verbatim>\<open>grad.data.clamp_(-100, 100)\<close> on every parameter gradient.\<close>

definition clamp :: "real \<Rightarrow> real \<Rightarrow> real \<Rightarrow> real" where
  "clamp lo hi x = min (max x lo) hi"

definition clamp_grads :: "params \<Rightarrow> params" where
  "clamp_grads grads = map (map (clamp (- 100) 100)) grads"

text \<open>
  The first part of one pass of the loop body (source lines 86 to 105): the sampled
  batch, the current values of the taken actions under the online network, the bootstrap
  targets under the target network, and the importance-sampling weights divided by their
  maximum. \<^verbatim>\<open>w.max()\<close> of an empty array raises.
\<close>

definition train_forward ::
  "'opt collab \<Rightarrow> nat list \<Rightarrow> 'opt agent \<Rightarrow> error + (batch \<times> real list \<times> real list \<times> real list)" where
  "train_forward c draw ag =
     (case rb_sample (memory ag) (batch_size ag) draw of
        Inl e \<Rightarrow> Inl e
      | Inr (states, actions, rewards, next_states, dones, priorities, indexes) \<Rightarrow>
          (case gather (map (forward c (dqn ag)) states) actions of
             Inl e \<Rightarrow> Inl e
           | Inr curr_q \<Rightarrow>
               (case row_max (map (forward c (target_dqn ag)) next_states) of
                  Inl e \<Rightarrow> Inl e
                | Inr max_next_q \<Rightarrow>
                    (let target = td_target (gamma ag) (n_step ag) rewards dones max_next_q;
                         N = rb_len (memory ag);
                         w = map (\<lambda>p. (real N * p) powr (- loss_param ag)) priorities
                     in if w = [] then Inl ValueError
                        else Inr ((states, actions, rewards, next_states, dones, priorities, indexes),
                                  curr_q, target, map (\<lambda>x. x / Max (set w)) w)))))"

text \<open>
  \<^verbatim>\<open>self.loss_param *= 1+self.loss_param_decay if self.loss_param < 1 else 1\<close>:
  the conditional expression is the whole right-hand side.
\<close>

definition anneal_beta :: "'opt agent \<Rightarrow> 'opt agent" where
  "anneal_beta ag =
     ag\<lparr>loss_param := loss_param ag * (if loss_param ag < 1 then 1 + loss_param_decay ag else 1)\<rparr>"

text \<open>
  One pass of the loop body (source lines 86 to 123), up to and including its
  \<^verbatim>\<open>return final_loss\<close>.
\<close>

definition train_epoch :: "'opt collab \<Rightarrow> nat list \<Rightarrow> 'opt agent \<Rightarrow> error + (real \<times> 'opt agent)" where
  "train_epoch c draw ag =
     (case train_forward c draw ag of
        Inl e \<Rightarrow> Inl e
      | Inr ((states, actions, rewards, next_states, dones, priorities, indexes), curr_q, target, w) \<Rightarrow>
          (let ag = anneal_beta ag;
               loss = mse_loss curr_q target;
               ag = ag\<lparr>memory := rb_update_priority (memory ag) indexes (map abs loss)\<rparr>;
               weighted_loss = map (\<lambda>(l, x). l * x) (zip loss w);
               final_loss = mean weighted_loss;
               grads = clamp_grads (backward c (dqn ag) states actions target w);
               (opt, online) = opt_step c (optimizer ag) (dqn ag) grads;
               ag = ag\<lparr>dqn := online, optimizer := opt\<rparr>;
               ag = update_target ag
           in Inr (final_loss, ag)))"

text \<open>
  What \<^verbatim>\<open>train\<close> returns: the float \<open>-inf\<close>, \<^verbatim>\<open>None\<close> (the loop body never
  ran), or the final loss.
\<close>

datatype train_result = NegInf | PyNone | Loss real

text \<open>
  The loop \<^verbatim>\<open>for epoch in range(epochs)\<close>, whose body ends in
  \<^verbatim>\<open>return final_loss\<close>; \<open>draws epoch\<close> is what the generator draws in that pass.
\<close>

fun train_loop ::
  "'opt collab \<Rightarrow> (nat \<Rightarrow> nat list) \<Rightarrow> nat list \<Rightarrow> 'opt agent \<Rightarrow> error + (train_result \<times> 'opt agent)" where
  "train_loop c draws [] ag = Inr (PyNone, ag)"
| "train_loop c draws (epoch # rest) ag =
     (case train_epoch c (draws epoch) ag of
        Inl e \<Rightarrow> Inl e
      | Inr (final_loss, ag') \<Rightarrow> Inr (Loss final_loss, ag'))"

definition train ::
  "'opt collab \<Rightarrow> (nat \<Rightarrow> nat list) \<Rightarrow> nat \<Rightarrow> 'opt agent \<Rightarrow> error + (train_result \<times> 'opt agent)" where
  "train c draws epochs ag =
     (if batch_size ag > rb_size (memory ag) then Inr (NegInf, ag)
      else train_loop c draws [0..<epochs] ag)"

section \<open>Sequences of calls\<close>



text \<open>The environment loop calling \<^verbatim>\<open>remember\<close> once per step.\<close>

fun remember_all :: "transition list \<Rightarrow> 'opt agent \<Rightarrow> error + 'opt agent" where
  "remember_all [] ag = Inr ag"
| "remember_all (t # ts) ag =
     (case remember t ag of Inl e \<Rightarrow> Inl e | Inr ag' \<Rightarrow> remember_all ts ag')"

text \<open>
  The agents a caller can reach from a given one by calls of \<^verbatim>\<open>act\<close>,
  \<^verbatim>\<open>remember\<close>, \<^verbatim>\<open>train\<close> and \<^verbatim>\<open>load_model\<close> that return.
\<close>

inductive reaches :: "'opt collab \<Rightarrow> 'opt agent \<Rightarrow> 'opt agent \<Rightarrow> bool" for c :: "'opt collab" where
  reaches_refl: "reaches c ag ag"
| reaches_act:
    "reaches c ag ag1 \<Longrightarrow> act c u sampled state evaluate ag1 = Inr (a, ag2) \<Longrightarrow> reaches c ag ag2"
| reaches_remember:
    "reaches c ag ag1 \<Longrightarrow> remember t ag1 = Inr ag2 \<Longrightarrow> reaches c ag ag2"
| reaches_train:
    "reaches c ag ag1 \<Longrightarrow> train c draws epochs ag1 = Inr (r, ag2) \<Longrightarrow> reaches c ag ag2"
| reaches_load_model:
    "reaches c ag ag1 \<Longrightarrow> load_model fs path ag1 = Inr ag2 \<Longrightarrow> reaches c ag ag2"

text \<open>The fields that no method of the agent assigns after construction.\<close>

definition hyper :: "'opt agent \<Rightarrow> nat \<times> real \<times> real \<times> real \<times> nat \<times> real \<times> real \<times> nat" where
  "hyper ag =
     (batch_size ag, loss_param_decay ag, gamma ag, tau ag, n_step ag,
      epsilon_decay ag, min_epsilon ag, nsb_n_step (n_step_buffer ag))"

section \<open>A small agent for concrete instances\<close>

text \<open>
  A network whose action values are its single parameter tensor whatever the
  observation, gradients that vanish, and an optimizer that counts its steps and subtracts
  the gradient.
\<close>

definition ex_collab :: "nat collab" where
  "ex_collab =
     \<lparr>forward = (\<lambda>ps s. hd ps),
      backward = (\<lambda>ps states actions target w. map (map (\<lambda>x. 0)) ps),
      opt_init = (\<lambda>ps lr. 0),
      opt_step = (\<lambda>opt ps grads.
                    (Suc opt, map (\<lambda>(p, g). map (\<lambda>(x, y). x - y) (zip p g)) (zip ps grads)))\<rparr>"

text \<open>The same collaborators with a gradient of two hundred in every entry.\<close>

definition ex_steep :: "nat collab" where
  "ex_steep = ex_collab\<lparr>backward := (\<lambda>ps states actions target w. map (map (\<lambda>x. 200)) ps)\<rparr>"

text \<open>
  An agent with two actions, a batch size of two, a store of three slots, a discount of
  one half, and the constructor's defaults for the other hyperparameters.
\<close>

definition ex_agent :: "nat agent" where
  "ex_agent =
     DQNAgent ex_collab [[0, 0]] [[3, 1]] [1] 2 2 3 3 (6 / 10) (4 / 10) (2 / 100000)
       (7 / 10000) (1 / 2) (1 / 100) (1 / 2) (9995 / 10000) (1 / 100)"

text \<open>
  A step that does not end the episode, a step that does, the agent after remembering
  four steps of the first kind, and that agent after one training pass that samples the
  first slot twice.
\<close>

definition ex_step :: transition where
  "ex_step = ([0], 0, 1, [0], False)"

definition ex_last :: transition where
  "ex_last = ([0], 0, 1, [0], True)"

definition ex_ready :: "nat agent" where
  "ex_ready =
     (case remember_all [ex_step, ex_step, ex_step, ex_step] ex_agent of
        Inr ag \<Rightarrow> ag
      | Inl e \<Rightarrow> ex_agent)"

definition ex_trained :: "nat agent" where
  "ex_trained =
     (case train_epoch ex_collab [0, 0] ex_ready of
        Inr (final_loss, ag) \<Rightarrow> ag
      | Inl e \<Rightarrow> ex_ready)"

section \<open>Facts about the parts of a training pass\<close>

lemma map_err_Inr:
  "map_err f xs = Inr ys \<Longrightarrow> length ys = length xs \<and> (\<forall>i<length xs. f (xs ! i) = Inr (ys ! i))"
proof (induction xs arbitrary: ys)
  case Nil
  then show ?case by simp
next
  case (Cons x xs)
  from Cons.prems obtain y zs where fx: "f x = Inr y" and rest: "map_err f xs = Inr zs"
    and ys: "ys = y # zs"
    by (auto split: sum.splits)
  from Cons.IH [OF rest] have len: "length zs = length xs"
    and nth: "\<forall>i<length xs. f (xs ! i) = Inr (zs ! i)" by simp_all
  show ?case
  proof (intro conjI allI impI)
    show "length ys = length (x # xs)" using len ys by simp
  next
    fix i assume "i < length (x # xs)"
    then show "f ((x # xs) ! i) = Inr (ys ! i)"
      using fx nth ys by (cases i) simp_all
  qed
qed

lemma rb_sample_Inr:
  assumes "rb_sample rb n draw = Inr (states, actions, rewards, next_states, dones, priorities, indexes)"
  shows "n \<le> rb_size rb"
    and "states = map (\<lambda>i. rb_states rb ! i) draw"
    and "actions = map (\<lambda>i. rb_actions rb ! i) draw"
    and "rewards = map (\<lambda>i. rb_rewards rb ! i) draw"
    and "next_states = map (\<lambda>i. rb_next_states rb ! i) draw"
    and "dones = map (\<lambda>i. rb_dones rb ! i) draw"
    and "priorities =
           map (\<lambda>i. map (\<lambda>p. p powr rb_alpha rb) (take (rb_size rb) (rb_priorities rb)) ! i
                     / sum_list (map (\<lambda>p. p powr rb_alpha rb) (take (rb_size rb) (rb_priorities rb))))
               draw"
    and "indexes = draw"
  using assms by (auto simp: rb_sample_def Let_def split: if_splits)

lemma train_forward_Inr:
  assumes "train_forward c draw ag =
             Inr ((states, actions, rewards, next_states, dones, priorities, indexes), curr_q, target, w)"
  shows "rb_sample (memory ag) (batch_size ag) draw =
           Inr (states, actions, rewards, next_states, dones, priorities, indexes)"
    and "gather (map (forward c (dqn ag)) states) actions = Inr curr_q"
    and "\<exists>m. row_max (map (forward c (target_dqn ag)) next_states) = Inr m
             \<and> target = td_target (gamma ag) (n_step ag) rewards dones m"
    and "priorities \<noteq> []"
    and "w = map (\<lambda>x. x / Max (set (map (\<lambda>p. (real (rb_size (memory ag)) * p) powr (- loss_param ag)) priorities)))
                 (map (\<lambda>p. (real (rb_size (memory ag)) * p) powr (- loss_param ag)) priorities)"
  using assms
  by (auto simp: train_forward_def Let_def rb_len_def split: sum.splits prod.splits if_splits)

lemma row_max_Inr:
  assumes "row_max q = Inr m"
  shows "length m = length q" and "\<forall>i<length q. m ! i = Max (set (q ! i))"
proof -
  from assms have
    *: "map_err (\<lambda>row. if row = [] then Inl RuntimeError else Inr (Max (set row))) q = Inr m"
    by (simp add: row_max_def)
  from map_err_Inr [OF *] show "length m = length q" by simp
  show "\<forall>i<length q. m ! i = Max (set (q ! i))"
  proof (intro allI impI)
    fix i assume "i < length q"
    with map_err_Inr [OF *]
    have "(if q ! i = [] then Inl RuntimeError else Inr (Max (set (q ! i)))) = Inr (m ! i)"
      by simp
    then show "m ! i = Max (set (q ! i))" by (simp split: if_splits)
  qed
qed

lemma gather_Inr:
  assumes "gather q actions = Inr r"
  shows "length r = length q" and "length actions = length q"
    and "\<forall>i<length q. actions ! i < length (q ! i) \<and> r ! i = q ! i ! (actions ! i)"
proof -
  let ?f = "\<lambda>(row, a). if a < length row then Inr (row ! a) else Inl RuntimeError"
  from assms have len: "length q = length actions" and *: "map_err ?f (zip q actions) = Inr r"
    by (simp_all add: gather_def split: if_splits)
  from len show "length actions = length q" by simp
  from map_err_Inr [OF *] len show "length r = length q" by simp
  show "\<forall>i<length q. actions ! i < length (q ! i) \<and> r ! i = q ! i ! (actions ! i)"
  proof (intro allI impI)
    fix i assume i: "i < length q"
    with map_err_Inr [OF *] len have "?f (zip q actions ! i) = Inr (r ! i)" by simp
    with i len show "actions ! i < length (q ! i) \<and> r ! i = q ! i ! (actions ! i)"
      by (simp split: if_splits)
  qed
qed

lemma td_target_nth:
  assumes "i < length rewards" and "i < length dones" and "i < length m"
  shows "td_target g n rewards dones m ! i = rewards ! i + (1 - of_bool (dones ! i)) * g ^ n * m ! i"
  using assms by (simp add: td_target_def)

lemma train_forward_nth:
  assumes tf: "train_forward c draw ag =
               Inr ((states, actions, rewards, next_states, dones, priorities, indexes), curr_q, target, w)"
    and len: "length draw = batch_size ag"
  shows "length curr_q = batch_size ag" and "length target = batch_size ag"
    and "indexes = draw"
    and "\<forall>k<batch_size ag.
           curr_q ! k = forward c (dqn ag) (rb_states (memory ag) ! (draw ! k)) ! (rb_actions (memory ag) ! (draw ! k))
           \<and> target ! k =
               rb_rewards (memory ag) ! (draw ! k)
               + (1 - of_bool (rb_dones (memory ag) ! (draw ! k))) * gamma ag ^ n_step ag
                 * Max (set (forward c (target_dqn ag) (rb_next_states (memory ag) ! (draw ! k))))"
proof -
  note s = rb_sample_Inr [OF train_forward_Inr(1) [OF tf]]
  note gq = gather_Inr [OF train_forward_Inr(2) [OF tf]]
  from train_forward_Inr(3) [OF tf] obtain m where
    m: "row_max (map (forward c (target_dqn ag)) next_states) = Inr m"
    and target: "target = td_target (gamma ag) (n_step ag) rewards dones m" by blast
  from row_max_Inr [OF m] s(5) have mlen: "length m = length draw"
    and mnth: "\<forall>j<length draw. m ! j = Max (set (forward c (target_dqn ag) (next_states ! j)))"
    by simp_all
  show "indexes = draw" by (rule s(8))
  show "length curr_q = batch_size ag" using gq(1) s(2) len by simp
  show "length target = batch_size ag"
    using target s(4) s(6) mlen len by (simp add: td_target_def)
  show "\<forall>k<batch_size ag.
           curr_q ! k = forward c (dqn ag) (rb_states (memory ag) ! (draw ! k)) ! (rb_actions (memory ag) ! (draw ! k))
           \<and> target ! k =
               rb_rewards (memory ag) ! (draw ! k)
               + (1 - of_bool (rb_dones (memory ag) ! (draw ! k))) * gamma ag ^ n_step ag
                 * Max (set (forward c (target_dqn ag) (rb_next_states (memory ag) ! (draw ! k))))"
  proof (intro allI impI)
    fix k assume "k < batch_size ag"
    with len have k: "k < length draw" by simp
    have q: "curr_q ! k = forward c (dqn ag) (rb_states (memory ag) ! (draw ! k)) ! (rb_actions (memory ag) ! (draw ! k))"
      using gq(3) s(2) s(3) k by simp
    have "target ! k = rewards ! k + (1 - of_bool (dones ! k)) * gamma ag ^ n_step ag * m ! k"
      unfolding target using k s(4) s(6) mlen by (intro td_target_nth) simp_all
    moreover have "rewards ! k = rb_rewards (memory ag) ! (draw ! k)" using s(4) k by simp
    moreover have "dones ! k = rb_dones (memory ag) ! (draw ! k)" using s(6) k by simp
    moreover have "m ! k = Max (set (forward c (target_dqn ag) (rb_next_states (memory ag) ! (draw ! k))))"
      using mnth s(5) k by simp
    ultimately have "target ! k =
               rb_rewards (memory ag) ! (draw ! k)
               + (1 - of_bool (rb_dones (memory ag) ! (draw ! k))) * gamma ag ^ n_step ag
                 * Max (set (forward c (target_dqn ag) (rb_next_states (memory ag) ! (draw ! k))))"
      by simp
    with q show "curr_q ! k = forward c (dqn ag) (rb_states (memory ag) ! (draw ! k)) ! (rb_actions (memory ag) ! (draw ! k))
           \<and> target ! k =
               rb_rewards (memory ag) ! (draw ! k)
               + (1 - of_bool (rb_dones (memory ag) ! (draw ! k))) * gamma ag ^ n_step ag
                 * Max (set (forward c (target_dqn ag) (rb_next_states (memory ag) ! (draw ! k))))"
      by simp
  qed
qed

lemma train_epoch_loss:
  assumes "train_forward c draw ag =
             Inr ((states, actions, rewards, next_states, dones, priorities, indexes), curr_q, target, w)"
    and "train_epoch c draw ag = Inr (fl, ag')"
  shows "fl = mean (map (\<lambda>(l, x). l * x) (zip (mse_loss curr_q target) w))"
  using assms by (auto simp: train_epoch_def Let_def split: prod.splits)

lemma train_epoch_memory:
  assumes "train_forward c draw ag =
             Inr ((states, actions, rewards, next_states, dones, priorities, indexes), curr_q, target, w)"
    and "train_epoch c draw ag = Inr (fl, ag')"
  shows "memory ag' = rb_update_priority (memory ag) indexes (map abs (mse_loss curr_q target))"
  using assms
  by (auto simp: train_epoch_def Let_def update_target_def anneal_beta_def split: prod.splits)

section \<open>What each method changes\<close>

lemma act_Inr:
  "act c u sampled state evaluate ag = Inr (a, ag') \<Longrightarrow>
     ag' = ag\<lparr>epsilon := max (epsilon ag * epsilon_decay ag) (min_epsilon ag)\<rparr>"
  by (auto simp: act_def Let_def split: if_splits sum.splits)

lemma nsb_update_unfold:
  "nsb_update b t =
     (let w = nsb_window b @ [t] in
      if length w < nsb_n_step b \<and> \<not> t_done t then (None, b\<lparr>nsb_window := w\<rparr>)
      else (Some (synthesize (nsb_gamma b) w),
            b\<lparr>nsb_window := (if t_done t then [] else tl w)\<rparr>))"
proof (cases "t_done t")
  case True
  let ?w = "nsb_window b @ [t]"
  let ?f = "\<lambda>k. synthesize (nsb_gamma b) (drop k ?w)"
  have "[0..<length ?w] = 0 # [Suc 0..<length ?w]" by (rule upt_conv_Cons) simp
  then have "map ?f [0..<length ?w] = ?f 0 # map ?f [Suc 0..<length ?w]" by (simp only: list.map)
  moreover from True have "nsb_emit b t = map ?f [0..<length ?w]"
    by (simp only: nsb_emit_def Let_def if_True)
  ultimately have "nsb_emit b t = synthesize (nsb_gamma b) ?w # map ?f [Suc 0..<length ?w]"
    by simp
  with True show ?thesis by (simp add: nsb_update_def Let_def)
next
  case False
  then show ?thesis by (simp add: nsb_update_def nsb_emit_def Let_def)
qed

lemma nsb_update_frame:
  "nsb_update b t = (e, b') \<Longrightarrow> nsb_n_step b' = nsb_n_step b \<and> nsb_gamma b' = nsb_gamma b"
  by (auto simp: nsb_update_unfold Let_def split: if_splits)

lemma remember_frame:
  assumes "remember t ag = Inr ag'"
  shows "hyper ag' = hyper ag" and "loss_param ag' = loss_param ag"
    and "epsilon ag' = epsilon ag"
  using assms
  by (auto simp: remember_def hyper_def Let_def
           split: prod.splits option.splits sum.splits dest: nsb_update_frame)

lemma train_epoch_frame:
  assumes "train_epoch c draw ag = Inr (fl, ag')"
  shows "hyper ag' = hyper ag" and "loss_param ag' = loss_param (anneal_beta ag)"
    and "epsilon ag' = epsilon ag"
  using assms
  by (auto simp: train_epoch_def hyper_def Let_def update_target_def anneal_beta_def
           split: sum.splits prod.splits)

lemma train_Inr:
  assumes "train c draws epochs ag = Inr (r, ag')"
  shows "ag' = ag \<or> (\<exists>fl. train_epoch c (draws 0) ag = Inr (fl, ag'))"
proof (cases "batch_size ag > rb_size (memory ag)")
  case True
  with assms show ?thesis by (simp add: train_def)
next
  case False
  show ?thesis
  proof (cases epochs)
    case 0
    with False assms show ?thesis by (simp add: train_def)
  next
    case (Suc k)
    then have "[0..<epochs] = 0 # [1..<epochs]" by (simp add: upt_conv_Cons)
    with False assms show ?thesis
      by (auto simp: train_def split: sum.splits prod.splits)
  qed
qed

lemma load_model_Inr:
  "load_model fs path ag = Inr ag' \<Longrightarrow>
     \<exists>sd. fs path = Some sd \<and> ag' = ag\<lparr>dqn := sd, target_dqn := sd\<rparr>"
  by (auto simp: load_model_def load_state_dict_def split: option.splits sum.splits if_splits)

lemma load_model_frame:
  assumes "load_model fs path ag = Inr ag'"
  shows "hyper ag' = hyper ag" and "loss_param ag' = loss_param ag" and "epsilon ag' = epsilon ag"
  using load_model_Inr [OF assms] by (auto simp: hyper_def)

lemma train_loss_param:
  assumes "train c draws epochs ag = Inr (r, ag')"
  shows "loss_param ag' = loss_param ag \<or> loss_param ag' = loss_param (anneal_beta ag)"
  using train_Inr [OF assms] by (auto dest: train_epoch_frame(2))

lemma reaches_hyper:
  assumes "reaches c ag ag'"
  shows "hyper ag' = hyper ag"
  using assms
proof (induction rule: reaches.induct)
  case (reaches_refl ag)
  show ?case by simp
next
  case (reaches_act ag ag1 u sampled state evaluate a ag2)
  from act_Inr [OF reaches_act.hyps(2)] reaches_act.IH show ?case by (simp add: hyper_def)
next
  case (reaches_remember ag ag1 t ag2)
  from remember_frame(1) [OF reaches_remember.hyps(2)] reaches_remember.IH show ?case by simp
next
  case (reaches_train ag ag1 draws epochs r ag2)
  from train_Inr [OF reaches_train.hyps(2)] show ?case
  proof
    assume "ag2 = ag1" with reaches_train.IH show ?thesis by simp
  next
    assume "\<exists>fl. train_epoch c (draws 0) ag1 = Inr (fl, ag2)"
    then obtain fl where "train_epoch c (draws 0) ag1 = Inr (fl, ag2)" by blast
    from train_epoch_frame(1) [OF this] reaches_train.IH show ?thesis by simp
  qed
next
  case (reaches_load_model ag ag1 fs path ag2)
  from load_model_Inr [OF reaches_load_model.hyps(2)] reaches_load_model.IH show ?case
    by (auto simp: hyper_def)
qed

lemma hyper_DQNAgent:
  "hyper (DQNAgent c net1 net2 shape k bs mm n a b bd lr g t e0 ed em) = (bs, bd, g, t, n, ed, em, n)"
  by (simp add: hyper_def DQNAgent_def NStepBuffer_def Let_def)

lemma remember_all_reaches:
  "reaches c ag0 ag \<Longrightarrow> remember_all ts ag = Inr ag' \<Longrightarrow> reaches c ag0 ag'"
proof (induction ts arbitrary: ag)
  case Nil
  then show ?case by simp
next
  case (Cons t ts)
  from Cons.prems(2) obtain ag1 where r: "remember t ag = Inr ag1"
    and rest: "remember_all ts ag1 = Inr ag'"
    by (auto split: sum.splits)
  from reaches_remember [OF Cons.prems(1) r] rest show ?case by (rule Cons.IH)
qed

lemma train_epoch_Inr_explicit:
  assumes "train_forward c draw ag =
             Inr ((states, actions, rewards, next_states, dones, priorities, indexes), curr_q, target, w)"
  shows "train_epoch c draw ag =
           Inr (mean (map (\<lambda>(l, x). l * x) (zip (mse_loss curr_q target) w)),
                update_target
                  (ag\<lparr>loss_param :=
                        loss_param ag * (if loss_param ag < 1 then 1 + loss_param_decay ag else 1),
                      memory := rb_update_priority (memory ag) indexes (map abs (mse_loss curr_q target)),
                      dqn := snd (opt_step c (optimizer ag) (dqn ag)
                                   (clamp_grads (backward c (dqn ag) states actions target w))),
                      optimizer := fst (opt_step c (optimizer ag) (dqn ag)
                                         (clamp_grads (backward c (dqn ag) states actions target w)))\<rparr>))"
  using assms
  by (simp add: train_epoch_def Let_def anneal_beta_def split: prod.splits)

section \<open>The example agent evaluated\<close>

lemmas ex_defs = DQNAgent_def ex_collab_def copy_params_def copy_tensor_def
  ReplayBuffer_def NStepBuffer_def

lemmas t_defs = t_state_def t_action_def t_reward_def t_next_state_def t_done_def

lemmas train_defs = train_epoch_def train_forward_def rb_sample_def gather_def row_max_def
  td_target_def rb_len_def anneal_beta_def mse_loss_def rb_update_priority_def mean_def
  clamp_grads_def clamp_def update_target_def soft_update_tensor_def

lemma ex_agent_value:
  "ex_agent =
     \<lparr>batch_size = 2, alpha = 3 / 5, loss_param = 2 / 5,
      loss_param_decay = 1 / 50000, gamma = 1 / 2, tau = 1 / 100, n_step = 3,
      memory =
        \<lparr>rb_capacity = 3, rb_alpha = 3 / 5, rb_epsilon = 1 / 10000,
         rb_states = [[0], [0], [0]], rb_actions = [0, 0, 0], rb_rewards = [0, 0, 0],
         rb_next_states = [[0], [0], [0]], rb_dones = [False, False, False],
         rb_priorities = [0, 0, 0], rb_cursor = 0, rb_size = 0, rb_max_priority = 1\<rparr>,
      n_step_buffer = \<lparr>nsb_gamma = 1 / 2, nsb_n_step = 3, nsb_window = []\<rparr>,
      num_actions = 2, epsilon = 1 / 2, epsilon_decay = 1999 / 2000,
      min_epsilon = 1 / 100, dqn = [[3, 1]], target_dqn = [[3, 1]], optimizer = 0\<rparr>"
  by (simp add: ex_agent_def ex_defs Let_def numeral_3_eq_3)

lemma ex_remember_all:
  "remember_all [ex_step, ex_step, ex_step, ex_step] ex_agent =
     Inr (ex_agent\<lparr>memory := (memory ex_agent)\<lparr>rb_rewards := [7 / 4, 7 / 4, 0],
                                              rb_priorities := [1, 1, 0],
                                              rb_cursor := 2, rb_size := 2\<rparr>,
                    n_step_buffer := (n_step_buffer ex_agent)\<lparr>nsb_window := [ex_step, ex_step]\<rparr>\<rparr>)"
  by (simp add: ex_agent_value remember_def nsb_update_unfold rb_update_def
      synthesize_def discounted_sum_def ex_step_def t_defs Let_def)

lemma ex_ready_value:
  "ex_ready =
     ex_agent\<lparr>memory := (memory ex_agent)\<lparr>rb_rewards := [7 / 4, 7 / 4, 0],
                                         rb_priorities := [1, 1, 0],
                                         rb_cursor := 2, rb_size := 2\<rparr>,
               n_step_buffer := (n_step_buffer ex_agent)\<lparr>nsb_window := [ex_step, ex_step]\<rparr>\<rparr>"
  unfolding ex_ready_def ex_remember_all by simp

lemma ex_train_forward:
  "train_forward ex_collab [0, 0] ex_ready =
     Inr (([[0], [0]], [0, 0], [7 / 4, 7 / 4], [[0], [0]], [False, False], [1 / 2, 1 / 2], [0, 0]),
          [3, 3], [17 / 8, 17 / 8], [1, 1])"
  by (simp add: ex_ready_value ex_agent_value train_defs ex_collab_def Let_def power3_eq_cube)

lemma ex_train_epoch:
  "train_epoch ex_collab [0, 0] ex_ready =
     Inr (49 / 64, ex_ready\<lparr>loss_param := 50001 / 125000,
                      memory := (memory ex_ready)\<lparr>rb_priorities := [30629 / 40000, 1, 0]\<rparr>,
                      optimizer := 1\<rparr>)"
  by (simp add: ex_ready_value ex_agent_value train_defs ex_collab_def Let_def power2_eq_square
      power3_eq_cube)

lemma ex_trained_value:
  "ex_trained = ex_ready\<lparr>loss_param := 50001 / 125000,
                      memory := (memory ex_ready)\<lparr>rb_priorities := [30629 / 40000, 1, 0]\<rparr>,
                      optimizer := 1\<rparr>"
  unfolding ex_trained_def ex_train_epoch by simp

lemma ex_reaches_ready: "reaches ex_collab ex_agent ex_ready"
  using remember_all_reaches [OF reaches_refl ex_remember_all]
  by (simp add: ex_ready_value)

lemma ex_valid_draw: "valid_draw (memory ex_ready) (batch_size ex_ready) [0, 0]"
  by (simp add: valid_draw_def ex_ready_value ex_agent_value)

lemma ex_train:
  "train ex_collab (\<lambda>epoch. [0, 0]) 1 ex_ready = Inr (Loss (49 / 64), ex_trained)"
  by (simp add: train_def ex_train_epoch ex_trained_value) (simp add: ex_ready_value ex_agent_value)

lemma ex_train_epoch_beta:
  "train_epoch ex_collab [0, 0] (ex_ready\<lparr>loss_param := b\<rparr>) =
     Inr (49 / 64, ex_trained\<lparr>loss_param := b * (if b < 1 then 1 + 1 / 50000 else 1)\<rparr>)"
  by (simp add: ex_trained_value ex_ready_value ex_agent_value train_defs ex_collab_def Let_def
      power2_eq_square power3_eq_cube)

lemma ex_train_beta:
  "train ex_collab (\<lambda>epoch. [0, 0]) 1 (ex_ready\<lparr>loss_param := b\<rparr>) =
     Inr (Loss (49 / 64), ex_trained\<lparr>loss_param := b * (if b < 1 then 1 + 1 / 50000 else 1)\<rparr>)"
  by (simp add: train_def ex_train_epoch_beta) (simp add: ex_ready_value ex_agent_value)

lemma ex_act:
  "act ex_collab (1 / 4) 1 [0] True (ex_agent\<lparr>epsilon := e\<rparr>)
     = Inr (0, ex_agent\<lparr>epsilon := max (e * (1999 / 2000)) (1 / 100)\<rparr>)"
  by (simp add: act_def argmax_def ex_agent_value ex_collab_def Let_def)

lemma ex_steep_forward:
  "train_forward ex_steep [0, 0] ex_ready =
     Inr (([[0], [0]], [0, 0], [7 / 4, 7 / 4], [[0], [0]], [False, False], [1 / 2, 1 / 2], [0, 0]),
          [3, 3], [17 / 8, 17 / 8], [1, 1])"
  by (simp add: ex_ready_value ex_agent_value train_defs ex_steep_def ex_collab_def Let_def
      power3_eq_cube)

section \<open>The accumulator over a short episode\<close>











section \<open>The priorities written back\<close>

lemma priority_fold_frame:
  "rb_epsilon (fold (\<lambda>(i, e) b. b\<lparr>rb_priorities := (rb_priorities b)[i := \<bar>e\<bar> + rb_epsilon b],
                         rb_max_priority := max (rb_max_priority b) (\<bar>e\<bar> + rb_epsilon b)\<rparr>) ps rb)
     = rb_epsilon rb
   \<and> length (rb_priorities (fold (\<lambda>(i, e) b. b\<lparr>rb_priorities := (rb_priorities b)[i := \<bar>e\<bar> + rb_epsilon b],
                         rb_max_priority := max (rb_max_priority b) (\<bar>e\<bar> + rb_epsilon b)\<rparr>) ps rb))
     = length (rb_priorities rb)"
  by (induction ps arbitrary: rb) (auto split: prod.splits)

lemma priority_fold_keep:
  assumes "\<forall>(i, e)\<in>set ps. i = j \<longrightarrow> \<bar>e\<bar> + rb_epsilon rb = v"
    and "rb_priorities rb ! j = v"
  shows "rb_priorities (fold (\<lambda>(i, e) b. b\<lparr>rb_priorities := (rb_priorities b)[i := \<bar>e\<bar> + rb_epsilon b],
                         rb_max_priority := max (rb_max_priority b) (\<bar>e\<bar> + rb_epsilon b)\<rparr>) ps rb) ! j = v"
  using assms
proof (induction ps arbitrary: rb)
  case Nil
  then show ?case by simp
next
  case (Cons p ps)
  obtain i e where p: "p = (i, e)" by (cases p)
  let ?rb = "rb\<lparr>rb_priorities := (rb_priorities rb)[i := \<bar>e\<bar> + rb_epsilon rb],
                 rb_max_priority := max (rb_max_priority rb) (\<bar>e\<bar> + rb_epsilon rb)\<rparr>"
  have "rb_priorities ?rb ! j = v"
  proof (cases "i = j")
    case True
    with Cons.prems p have "\<bar>e\<bar> + rb_epsilon rb = v" by simp
    with True Cons.prems(2) show ?thesis
      by (cases "j < length (rb_priorities rb)") (simp_all add: list_update_beyond)
  next
    case False
    with Cons.prems(2) show ?thesis by simp
  qed
  moreover have "\<forall>(i, e)\<in>set ps. i = j \<longrightarrow> \<bar>e\<bar> + rb_epsilon ?rb = v"
    using Cons.prems(1) by auto
  ultimately show ?case using Cons.IH [of ?rb] p by simp
qed

lemma priority_fold_written:
  assumes "\<forall>(i, e)\<in>set ps. i = j \<longrightarrow> \<bar>e\<bar> + rb_epsilon rb = v"
    and "j \<in> fst ` set ps" and "j < length (rb_priorities rb)"
  shows "rb_priorities (fold (\<lambda>(i, e) b. b\<lparr>rb_priorities := (rb_priorities b)[i := \<bar>e\<bar> + rb_epsilon b],
                         rb_max_priority := max (rb_max_priority b) (\<bar>e\<bar> + rb_epsilon b)\<rparr>) ps rb) ! j = v"
  using assms
proof (induction ps arbitrary: rb)
  case Nil
  then show ?case by simp
next
  case (Cons p ps)
  obtain i e where p: "p = (i, e)" by (cases p)
  let ?rb = "rb\<lparr>rb_priorities := (rb_priorities rb)[i := \<bar>e\<bar> + rb_epsilon rb],
                 rb_max_priority := max (rb_max_priority rb) (\<bar>e\<bar> + rb_epsilon rb)\<rparr>"
  have all: "\<forall>(i, e)\<in>set ps. i = j \<longrightarrow> \<bar>e\<bar> + rb_epsilon ?rb = v"
    using Cons.prems(1) by auto
  show ?case
  proof (cases "j \<in> fst ` set ps")
    case True
    from Cons.IH [of ?rb, OF all True] Cons.prems(3) p show ?thesis by simp
  next
    case False
    with Cons.prems(2) p have ij: "i = j" by auto
    with Cons.prems(1) p have "\<bar>e\<bar> + rb_epsilon rb = v" by simp
    with ij Cons.prems(3) have "rb_priorities ?rb ! j = v" by simp
    from priority_fold_keep [of ps j ?rb v, OF all this] p show ?thesis by simp
  qed
qed

text \<open>
  Claim C2, as the code has it. In a training pass that proceeds, the values handed to
  \<^verbatim>\<open>update_priority\<close> are the absolute values of the per-sample losses of
  \<^verbatim>\<open>mse_loss\<close> with no reduction, so the new priority of every sampled index is the
  squared TD-error \<open>(Q(s,a) - target)\<^sup>2\<close> of that sample plus the store's floor.
\<close>

theorem priority_written_is_squared_error:
  assumes tf: "train_forward c draw ag =
               Inr ((states, actions, rewards, next_states, dones, priorities, indexes), curr_q, target, w)"
    and te: "train_epoch c draw ag = Inr (fl, ag')"
    and vd: "valid_draw (memory ag) (batch_size ag) draw"
    and occ: "rb_size (memory ag) \<le> length (rb_priorities (memory ag))"
    and i: "i < batch_size ag"
  shows "memory ag' = rb_update_priority (memory ag) draw (map abs (mse_loss curr_q target))
         \<and> rb_priorities (memory ag') ! (draw ! i) =
             (forward c (dqn ag) (rb_states (memory ag) ! (draw ! i)) ! (rb_actions (memory ag) ! (draw ! i))
              - target ! i)\<^sup>2
             + rb_epsilon (memory ag)"
proof -
  let ?rb = "memory ag"
  let ?es = "map abs (mse_loss curr_q target)"
  let ?ps = "zip draw ?es"
  let ?v = "(curr_q ! i - target ! i)\<^sup>2 + rb_epsilon ?rb"
  from vd have len: "length draw = batch_size ag" and inb: "\<forall>k\<in>set draw. k < rb_size ?rb"
    by (simp_all add: valid_draw_def list_all_iff)
  note f = train_forward_nth [OF tf len]
  have mem: "memory ag' = rb_update_priority ?rb draw ?es"
    using train_epoch_memory [OF tf te] f(3) by simp
  have les: "length ?es = length draw" using f(1) f(2) len by (simp add: mse_loss_def)
  have es: "\<forall>k<batch_size ag. ?es ! k = (curr_q ! k - target ! k)\<^sup>2"
    using f(1) f(2) by (simp add: mse_loss_def)
  have same: "\<forall>k<batch_size ag. draw ! k = draw ! i \<longrightarrow> ?es ! k = ?es ! i"
  proof (intro allI impI)
    fix k assume k: "k < batch_size ag" and eq: "draw ! k = draw ! i"
    from f(4) k i eq have "curr_q ! k = curr_q ! i" and "target ! k = target ! i" by simp_all
    with es k i show "?es ! k = ?es ! i" by simp
  qed
  have all: "\<forall>(j, e)\<in>set ?ps. j = draw ! i \<longrightarrow> \<bar>e\<bar> + rb_epsilon ?rb = ?v"
  proof (clarify)
    fix e assume "(draw ! i, e) \<in> set ?ps"
    then obtain k where k: "k < length ?ps" and pk: "?ps ! k = (draw ! i, e)"
      by (metis in_set_conv_nth)
    from k les len have kb: "k < batch_size ag" by simp
    with pk les len have "draw ! k = draw ! i" and "e = ?es ! k" by simp_all
    with same kb have "e = ?es ! i" by simp
    with es i show "\<bar>e\<bar> + rb_epsilon ?rb = ?v" by simp
  qed
  from i len les have "?ps ! i \<in> set ?ps" by (intro nth_mem) simp
  with i len les have "(draw ! i, ?es ! i) \<in> set ?ps" by simp
  then have inp: "draw ! i \<in> fst ` set ?ps" by (rule image_eqI [rotated]) simp
  from i len inb have "draw ! i < rb_size ?rb" by (metis nth_mem)
  with occ have lt: "draw ! i < length (rb_priorities ?rb)" by simp
  have "rb_priorities (memory ag') ! (draw ! i) = ?v"
    unfolding mem rb_update_priority_def by (rule priority_fold_written [OF all inp lt])
  moreover from f(4) i have
    "curr_q ! i = forward c (dqn ag) (rb_states ?rb ! (draw ! i)) ! (rb_actions ?rb ! (draw ! i))"
    by simp
  ultimately show ?thesis using mem by simp
qed

text \<open>The example pass: the current value is three, the target seventeen eighths, and the priority written is the square of their difference plus the floor.\<close>

theorem priority_written_is_squared_error_witness:
  "train_forward ex_collab [0, 0] ex_ready =
     Inr (([[0], [0]], [0, 0], [7 / 4, 7 / 4], [[0], [0]], [False, False], [1 / 2, 1 / 2], [0, 0]),
          [3, 3], [17 / 8, 17 / 8], [1, 1])
   \<and> train_epoch ex_collab [0, 0] ex_ready = Inr (49 / 64, ex_trained)
   \<and> valid_draw (memory ex_ready) (batch_size ex_ready) [0, 0]
   \<and> rb_size (memory ex_ready) \<le> length (rb_priorities (memory ex_ready))
   \<and> (1 :: nat) < batch_size ex_ready
   \<and> rb_priorities (memory ex_trained) ! 0 = (3 - 17 / 8)\<^sup>2 + 1 / 10000"
proof -
  have te: "train_epoch ex_collab [0, 0] ex_ready = Inr (49 / 64, ex_trained)"
    by (simp add: ex_train_epoch ex_trained_value)
  have occ: "rb_size (memory ex_ready) \<le> length (rb_priorities (memory ex_ready))"
    by (simp add: ex_ready_value ex_agent_value)
  have i: "(1 :: nat) < batch_size ex_ready" by (simp add: ex_ready_value ex_agent_value)
  from priority_written_is_squared_error [OF ex_train_forward te ex_valid_draw occ i, THEN conjunct2]
  have "rb_priorities (memory ex_trained) ! 0 = (3 - 17 / 8)\<^sup>2 + 1 / 10000"
    by (simp add: ex_ready_value ex_agent_value ex_collab_def)
  with ex_train_forward te ex_valid_draw occ i show ?thesis by simp
qed

text \<open>In the example pass the priority written for the first slot differs from the absolute TD-error plus the floor.\<close>

theorem priority_is_not_absolute_td_error:
  "train_forward ex_collab [0, 0] ex_ready =
     Inr (([[0], [0]], [0, 0], [7 / 4, 7 / 4], [[0], [0]], [False, False], [1 / 2, 1 / 2], [0, 0]),
          [3, 3], [17 / 8, 17 / 8], [1, 1])
   \<and> (case train ex_collab (\<lambda>epoch. [0, 0]) 1 ex_ready of
         Inl e \<Rightarrow> False
       | Inr (r, ag') \<Rightarrow>
           rb_priorities (memory ag') ! 0 = (3 - 17 / 8)\<^sup>2 + rb_epsilon (memory ex_ready)
           \<and> rb_priorities (memory ag') ! 0 \<noteq> \<bar>3 - 17 / 8\<bar> + rb_epsilon (memory ex_ready))"
  unfolding ex_train ex_train_forward
  by (simp add: ex_trained_value ex_ready_value ex_agent_value power2_eq_square)

section \<open>The bootstrap target\<close>

text \<open>
  Claim C3. For an agent reached from its constructor, whose arguments include the
  discount \<open>g\<close> and the window length \<open>n\<close> given to the accumulator, the bootstrap
  target of every sample of a training pass is
  \<open>r + (1 - done) * g^n * max_a' Q_target(next_state, a')\<close>, with the fields of the
  sampled slot and the target network's action values, and the loss the pass returns is
  the mean of the weighted squared differences between the current values and these
  targets.
\<close>

theorem bootstrap_target_formula:
  assumes built: "reaches c (DQNAgent c net1 net2 shape k bs mm n a b bd lr g t e0 ed em) ag"
    and tf: "train_forward c draw ag =
               Inr ((states, actions, rewards, next_states, dones, priorities, indexes), curr_q, target, w)"
    and vd: "valid_draw (memory ag) (batch_size ag) draw"
    and i: "i < batch_size ag"
  shows "nsb_n_step (n_step_buffer ag) = n \<and> length target = batch_size ag
         \<and> target ! i =
             rb_rewards (memory ag) ! (draw ! i)
             + (1 - of_bool (rb_dones (memory ag) ! (draw ! i))) * g ^ n
               * Max (set (forward c (target_dqn ag) (rb_next_states (memory ag) ! (draw ! i))))
         \<and> (\<forall>fl ag'. train_epoch c draw ag = Inr (fl, ag') \<longrightarrow>
               fl = mean (map (\<lambda>(l, x). l * x) (zip (mse_loss curr_q target) w)))"
proof -
  from reaches_hyper [OF built] have "hyper ag = (bs, bd, g, t, n, ed, em, n)"
    by (simp add: hyper_DQNAgent)
  then have n: "n_step ag = n" and g: "gamma ag = g" and nsb: "nsb_n_step (n_step_buffer ag) = n"
    by (simp_all add: hyper_def)
  from vd have len: "length draw = batch_size ag" by (simp add: valid_draw_def)
  note f = train_forward_nth [OF tf len]
  from f(4) i n g have "target ! i =
             rb_rewards (memory ag) ! (draw ! i)
             + (1 - of_bool (rb_dones (memory ag) ! (draw ! i))) * g ^ n
               * Max (set (forward c (target_dqn ag) (rb_next_states (memory ag) ! (draw ! i))))"
    by simp
  with nsb f(2) train_epoch_loss [OF tf] show ?thesis by blast
qed

text \<open>The example pass: reward seven quarters, not done, discount one half over three steps, largest target value three.\<close>

theorem bootstrap_target_formula_witness:
  "reaches ex_collab ex_agent ex_ready
   \<and> train_forward ex_collab [0, 0] ex_ready =
     Inr (([[0], [0]], [0, 0], [7 / 4, 7 / 4], [[0], [0]], [False, False], [1 / 2, 1 / 2], [0, 0]),
          [3, 3], [17 / 8, 17 / 8], [1, 1])
   \<and> valid_draw (memory ex_ready) (batch_size ex_ready) [0, 0]
   \<and> (1 :: nat) < batch_size ex_ready
   \<and> nsb_n_step (n_step_buffer ex_ready) = 3
   \<and> length [17 / 8, 17 / 8 :: real] = batch_size ex_ready
   \<and> [17 / 8, 17 / 8 :: real] ! 1 = 7 / 4 + (1 - 0) * (1 / 2) ^ 3 * 3
   \<and> train_epoch ex_collab [0, 0] ex_ready = Inr (49 / 64, ex_trained)
   \<and> (49 / 64 :: real)
        = mean (map (\<lambda>(l, x). l * x) (zip (mse_loss [3, 3] [17 / 8, 17 / 8]) [1, 1]))"
proof -
  have r: "reaches ex_collab
             (DQNAgent ex_collab [[0, 0]] [[3, 1]] [1] 2 2 3 3 (6 / 10) (4 / 10) (2 / 100000)
                (7 / 10000) (1 / 2) (1 / 100) (1 / 2) (9995 / 10000) (1 / 100))
             ex_ready"
    using ex_reaches_ready by (simp add: ex_agent_def)
  have i: "(1 :: nat) < batch_size ex_ready" by (simp add: ex_ready_value ex_agent_value)
  have te: "train_epoch ex_collab [0, 0] ex_ready = Inr (49 / 64, ex_trained)"
    by (simp add: ex_train_epoch ex_trained_value)
  note t = bootstrap_target_formula [OF r ex_train_forward ex_valid_draw i]
  from t have "nsb_n_step (n_step_buffer ex_ready) = 3"
    and "length [17 / 8, 17 / 8 :: real] = batch_size ex_ready" by simp_all
  moreover from t have "[17 / 8, 17 / 8 :: real] ! 1 = 7 / 4 + (1 - 0) * (1 / 2) ^ 3 * 3"
    by (simp add: ex_ready_value ex_agent_value ex_collab_def)
  moreover from t te
  have "(49 / 64 :: real) = mean (map (\<lambda>(l, x). l * x) (zip (mse_loss [3, 3] [17 / 8, 17 / 8]) [1, 1]))"
    by blast
  ultimately show ?thesis using ex_reaches_ready ex_train_forward ex_valid_draw i te by simp
qed

section \<open>Training before the store is ready\<close>

text \<open>
  Claim C4. When the occupied size of the replay store is below the batch size,
  \<^verbatim>\<open>train\<close> returns \<open>-inf\<close> without raising and the agent is unchanged: networks,
  store, epsilon, beta and everything else.
\<close>

theorem train_not_ready:
  "rb_size (memory ag) < batch_size ag \<Longrightarrow> train c draws epochs ag = Inr (NegInf, ag)"
  by (simp add: train_def)

text \<open>The example agent before any step is remembered: the store is empty and the batch size is two.\<close>

theorem train_not_ready_witness:
  "rb_size (memory ex_agent) < batch_size ex_agent
   \<and> train ex_collab (\<lambda>epoch. [0, 0]) 1 ex_agent = Inr (NegInf, ex_agent)"
proof -
  have h: "rb_size (memory ex_agent) < batch_size ex_agent" by (simp add: ex_agent_value)
  from train_not_ready [OF h] h show ?thesis by simp
qed

section \<open>The importance-sampling weights\<close>

lemma sum_list_pos_real:
  fixes xs :: "real list"
  shows "xs \<noteq> [] \<Longrightarrow> \<forall>x\<in>set xs. 0 < x \<Longrightarrow> 0 < sum_list xs"
proof (induction xs)
  case Nil
  then show ?case by simp
next
  case (Cons x xs)
  show ?case
  proof (cases "xs = []")
    case True
    with Cons.prems show ?thesis by simp
  next
    case False
    with Cons have "0 < sum_list xs" by simp
    moreover from Cons.prems have "0 < x" by simp
    ultimately show ?thesis by simp
  qed
qed

lemma normalise_by_max:
  fixes raw :: "real list"
  assumes ne: "raw \<noteq> []" and pos: "\<forall>x\<in>set raw. 0 < x"
  defines "w \<equiv> map (\<lambda>x. x / Max (set raw)) raw"
  shows "Max (set w) = 1" and "\<forall>x\<in>set w. 0 < x \<and> x \<le> 1"
proof -
  let ?M = "Max (set raw)"
  from ne have Min: "?M \<in> set raw" by (intro Max_in) simp_all
  with pos have Mpos: "0 < ?M" by blast
  have le: "\<forall>x\<in>set raw. x \<le> ?M" by simp
  show bounds: "\<forall>x\<in>set w. 0 < x \<and> x \<le> 1"
  proof
    fix y assume "y \<in> set w"
    then obtain x where x: "x \<in> set raw" and y: "y = x / ?M" by (auto simp: w_def)
    from x pos le have "0 < x" and "x \<le> ?M" by simp_all
    with Mpos y show "0 < y \<and> y \<le> 1" by simp
  qed
  have "?M / ?M \<in> set w" using Min by (force simp: w_def)
  with Mpos have one: "1 \<in> set w" by simp
  show "Max (set w) = 1"
  proof (rule Max_eqI)
    show "finite (set w)" by simp
    show "\<And>y. y \<in> set w \<Longrightarrow> y \<le> 1" using bounds by blast
    show "1 \<in> set w" by (rule one)
  qed
qed

text \<open>
  Claim C5. In a training pass that proceeds over a store whose occupied slots have
  positive priorities, the batch is the one \<^verbatim>\<open>sample\<close> returns, the normalized
  priority \<open>p_i\<close> of sample \<open>i\<close> is its slot's \<open>priority^alpha\<close> over the sum of
  \<open>priority^alpha\<close> of the occupied slots, and the weight of sample \<open>i\<close> is
  \<open>(N * p_i)^(-beta)\<close> divided by the largest such value of the batch, with \<open>N\<close> the
  occupied size. The largest weight is exactly one, every weight lies in \<open>(0, 1]\<close>, and
  these are the weights in the loss the pass returns.
\<close>

theorem importance_weights_max_one:
  assumes tf: "train_forward c draw ag =
               Inr ((states, actions, rewards, next_states, dones, priorities, indexes), curr_q, target, w)"
    and vd: "valid_draw (memory ag) (batch_size ag) draw"
    and occ: "rb_size (memory ag) \<le> length (rb_priorities (memory ag))"
    and pos: "\<forall>j<rb_size (memory ag). 0 < rb_priorities (memory ag) ! j"
  shows "rb_sample (memory ag) (batch_size ag) draw =
           Inr (states, actions, rewards, next_states, dones, priorities, indexes)
         \<and> length priorities = batch_size ag \<and> length w = batch_size ag
         \<and> (\<forall>i<batch_size ag.
               priorities ! i =
                 rb_priorities (memory ag) ! (draw ! i) powr rb_alpha (memory ag)
                 / sum_list (map (\<lambda>q. q powr rb_alpha (memory ag))
                              (take (rb_size (memory ag)) (rb_priorities (memory ag))))
               \<and> w ! i = (real (rb_len (memory ag)) * priorities ! i) powr (- loss_param ag)
                         / Max (set (map (\<lambda>p. (real (rb_len (memory ag)) * p) powr (- loss_param ag)) priorities)))
         \<and> Max (set w) = 1 \<and> (\<forall>x\<in>set w. 0 < x \<and> x \<le> 1)
         \<and> (\<forall>fl ag'. train_epoch c draw ag = Inr (fl, ag') \<longrightarrow>
               fl = mean (map (\<lambda>(l, x). l * x) (zip (mse_loss curr_q target) w)))"
proof -
  let ?rb = "memory ag"
  let ?scaled = "map (\<lambda>p. p powr rb_alpha ?rb) (take (rb_size ?rb) (rb_priorities ?rb))"
  let ?raw = "map (\<lambda>p. (real (rb_size ?rb) * p) powr (- loss_param ag)) priorities"
  from vd have len: "length draw = batch_size ag" and inb: "\<forall>i\<in>set draw. i < rb_size ?rb"
    by (simp_all add: valid_draw_def list_all_iff)
  note sample = train_forward_Inr(1) [OF tf]
  note s = rb_sample_Inr [OF sample]
  have w: "w = map (\<lambda>x. x / Max (set ?raw)) ?raw" by (rule train_forward_Inr(5) [OF tf])
  have ne: "priorities \<noteq> []" by (rule train_forward_Inr(4) [OF tf])
  with s(7) have dne: "draw \<noteq> []" by auto
  then obtain i0 where "i0 \<in> set draw" by (cases draw) auto
  with inb have Npos: "0 < rb_size ?rb" by fastforce
  have slen: "length ?scaled = rb_size ?rb" using occ by simp
  have spos: "\<forall>x\<in>set ?scaled. 0 < x"
  proof
    fix x assume "x \<in> set ?scaled"
    then obtain j where j: "j < rb_size ?rb" and x: "x = ?scaled ! j"
      using slen by (metis in_set_conv_nth)
    from j occ have "?scaled ! j = (rb_priorities ?rb ! j) powr rb_alpha ?rb" by simp
    moreover from pos j have "0 < rb_priorities ?rb ! j" by simp
    ultimately show "0 < x" using x by simp
  qed
  from slen Npos have sne: "?scaled \<noteq> []" by auto
  have tpos: "0 < sum_list ?scaled" by (rule sum_list_pos_real [OF sne spos])
  have ppos: "\<forall>p\<in>set priorities. 0 < p"
  proof
    fix p assume "p \<in> set priorities"
    with s(7) obtain i where i: "i \<in> set draw" and p: "p = ?scaled ! i / sum_list ?scaled" by auto
    from i inb have "i < length ?scaled" unfolding slen by blast
    then have "?scaled ! i \<in> set ?scaled" by (rule nth_mem)
    with spos have "0 < ?scaled ! i" by blast
    with tpos p show "0 < p" by simp
  qed
  have rpos: "\<forall>x\<in>set ?raw. 0 < x"
  proof
    fix x assume "x \<in> set ?raw"
    then obtain p where p: "p \<in> set priorities" and x: "x = (real (rb_size ?rb) * p) powr (- loss_param ag)"
      by auto
    from p ppos have "0 < p" by blast
    with Npos have "real (rb_size ?rb) * p \<noteq> 0" by simp
    then show "0 < x" unfolding x powr_gt_zero .
  qed
  from ne have rne: "?raw \<noteq> []" by simp
  have lp: "length priorities = batch_size ag" using s(7) len by simp
  have lw: "length w = batch_size ag" using w lp by simp
  have pn: "\<forall>i<batch_size ag.
               priorities ! i =
                 rb_priorities ?rb ! (draw ! i) powr rb_alpha ?rb / sum_list ?scaled"
  proof (intro allI impI)
    fix i assume "i < batch_size ag"
    with len have i: "i < length draw" by simp
    then have "draw ! i \<in> set draw" by (rule nth_mem)
    with inb have d: "draw ! i < rb_size ?rb" by blast
    with occ have "?scaled ! (draw ! i) = rb_priorities ?rb ! (draw ! i) powr rb_alpha ?rb" by simp
    moreover from s(7) i have "priorities ! i = ?scaled ! (draw ! i) / sum_list ?scaled" by simp
    ultimately show "priorities ! i =
                 rb_priorities ?rb ! (draw ! i) powr rb_alpha ?rb / sum_list ?scaled" by simp
  qed
  have wn: "\<forall>i<batch_size ag.
               w ! i = (real (rb_len ?rb) * priorities ! i) powr (- loss_param ag)
                       / Max (set (map (\<lambda>p. (real (rb_len ?rb) * p) powr (- loss_param ag)) priorities))"
    using w lp by (simp add: rb_len_def)
  from normalise_by_max [OF rne rpos] w have mx: "Max (set w) = 1" and bd: "\<forall>x\<in>set w. 0 < x \<and> x \<le> 1"
    by simp_all
  from sample lp lw pn wn mx bd train_epoch_loss [OF tf] show ?thesis by blast
qed

text \<open>A pass of the trained example agent that samples both occupied slots: their priorities differ, and so do their weights.\<close>

theorem importance_weights_max_one_witness:
  "valid_draw (memory ex_trained) (batch_size ex_trained) [0, 1]
   \<and> rb_size (memory ex_trained) \<le> length (rb_priorities (memory ex_trained))
   \<and> list_all (\<lambda>p. 0 < p) (take (rb_size (memory ex_trained)) (rb_priorities (memory ex_trained)))
   \<and> rb_priorities (memory ex_trained) = [30629 / 40000, 1, 0]
   \<and> (case train_forward ex_collab [0, 1] ex_trained of
         Inl e \<Rightarrow> False
       | Inr ((states, actions, rewards, next_states, dones, priorities, indexes), curr_q, target, w) \<Rightarrow>
           rb_sample (memory ex_trained) (batch_size ex_trained) [0, 1]
             = Inr (states, actions, rewards, next_states, dones, priorities, indexes)
           \<and> length w = batch_size ex_trained \<and> Max (set w) = 1
           \<and> list_all (\<lambda>x. 0 < x \<and> x \<le> 1) w
           \<and> priorities ! 0 < priorities ! 1 \<and> w ! 1 < w ! 0)"
proof -
  let ?rb = "memory ex_trained"
  have vd: "valid_draw ?rb (batch_size ex_trained) [0, 1]"
    by (simp add: valid_draw_def ex_trained_value ex_ready_value ex_agent_value)
  have occ: "rb_size ?rb \<le> length (rb_priorities ?rb)"
    by (simp add: ex_trained_value ex_ready_value ex_agent_value)
  have pv: "rb_priorities ?rb = [30629 / 40000, 1, 0]"
    by (simp add: ex_trained_value ex_ready_value ex_agent_value)
  have sz: "rb_size ?rb = 2" "batch_size ex_trained = 2" "rb_alpha ?rb = 3 / 5"
    "loss_param ex_trained = 50001 / 125000"
    by (simp_all add: ex_trained_value ex_ready_value ex_agent_value)
  have pl: "list_all (\<lambda>p. 0 < p) (take (rb_size ?rb) (rb_priorities ?rb))"
    by (simp add: pv sz numeral_2_eq_2)
  have pos: "\<forall>j<rb_size ?rb. 0 < rb_priorities ?rb ! j"
    by (simp add: pv sz numeral_2_eq_2 less_Suc_eq)
  have "\<exists>states actions rewards next_states dones priorities indexes curr_q target w.
          train_forward ex_collab [0, 1] ex_trained =
            Inr ((states, actions, rewards, next_states, dones, priorities, indexes), curr_q, target, w)"
    by (simp add: ex_trained_value ex_ready_value ex_agent_value train_forward_def rb_sample_def
        gather_def row_max_def ex_collab_def Let_def)
  then obtain states actions rewards next_states dones priorities indexes curr_q target w where
    tf: "train_forward ex_collab [0, 1] ex_trained =
            Inr ((states, actions, rewards, next_states, dones, priorities, indexes), curr_q, target, w)"
    by blast
  note t = importance_weights_max_one [OF tf vd occ pos]
  from t have sample: "rb_sample ?rb (batch_size ex_trained) [0, 1]
             = Inr (states, actions, rewards, next_states, dones, priorities, indexes)"
    and lw: "length w = batch_size ex_trained" and mx: "Max (set w) = 1"
    and bd: "\<forall>x\<in>set w. 0 < x \<and> x \<le> 1" by blast+
  let ?a = "(30629 / 40000 :: real) powr (3 / 5)"
  let ?M = "Max (set (map (\<lambda>p. (real (rb_len ?rb) * p) powr (- loss_param ex_trained)) priorities))"
  have a0: "0 < ?a" by simp
  have "(30629 / 40000 :: real) powr (3 / 5) < 1 powr (3 / 5)"
    by (rule powr_less_mono2) simp_all
  then have a1: "?a < 1" by simp
  from t have p0: "priorities ! 0 = ?a / (?a + 1)" and p1: "priorities ! 1 = 1 / (?a + 1)"
    by (simp_all add: pv sz numeral_2_eq_2)
  from a0 have ap: "0 < ?a + 1" by linarith
  from a1 ap have plt: "priorities ! 0 < priorities ! 1"
    unfolding p0 p1 by (rule divide_strict_right_mono)
  from a0 ap have p0pos: "0 < priorities ! 0" unfolding p0 by (rule divide_pos_pos)
  from t have w0: "w ! 0 = (real (rb_len ?rb) * priorities ! 0) powr (- loss_param ex_trained) / ?M"
    and w1: "w ! 1 = (real (rb_len ?rb) * priorities ! 1) powr (- loss_param ex_trained) / ?M"
    by (simp_all add: sz)
  have n: "real (rb_len ?rb) = 2" by (simp add: rb_len_def sz)
  have raw: "(2 * priorities ! 1) powr (- loss_param ex_trained)
               < (2 * priorities ! 0) powr (- loss_param ex_trained)"
    using plt p0pos by (intro powr_less_mono2_neg) (simp_all add: sz)
  from lw sz have "w ! 0 \<in> set w" by (intro nth_mem) simp
  with bd have "0 < w ! 0" by blast
  moreover have "0 < (2 * priorities ! 0) powr (- loss_param ex_trained)"
    using p0pos by simp
  ultimately have Mpos: "0 < ?M" unfolding w0 n by (simp add: zero_less_divide_iff)
  from raw Mpos have wlt: "w ! 1 < w ! 0" unfolding w0 w1 n by (rule divide_strict_right_mono)
  from bd have "list_all (\<lambda>x. 0 < x \<and> x \<le> 1) w" by (simp add: list_all_iff)
  with vd occ pl pv sample lw mx plt wlt show ?thesis unfolding tf by simp
qed

section \<open>The annealing of beta\<close>

lemma reaches_beta_bound:
  assumes "reaches c ag ag'" and "loss_param ag \<le> 1 + loss_param_decay ag"
    and "0 \<le> loss_param_decay ag"
  shows "loss_param ag' \<le> 1 + loss_param_decay ag"
  using assms
proof (induction rule: reaches.induct)
  case (reaches_refl ag)
  then show ?case by simp
next
  case (reaches_act ag ag1 u sampled state evaluate a ag2)
  with act_Inr [OF reaches_act.hyps(2)] show ?case by simp
next
  case (reaches_remember ag ag1 t ag2)
  with remember_frame(2) [OF reaches_remember.hyps(2)] show ?case by simp
next
  case (reaches_train ag ag1 draws epochs r ag2)
  let ?d = "loss_param_decay ag"
  from reaches_train have le: "loss_param ag1 \<le> 1 + ?d" and d: "0 \<le> ?d" by simp_all
  from reaches_hyper [OF reaches_train.hyps(1)] have d1: "loss_param_decay ag1 = ?d"
    by (simp add: hyper_def)
  from train_loss_param [OF reaches_train.hyps(2)] show ?case
  proof
    assume "loss_param ag2 = loss_param ag1" with le show ?thesis by simp
  next
    assume a: "loss_param ag2 = loss_param (anneal_beta ag1)"
    show ?thesis
    proof (cases "loss_param ag1 < 1")
      case True
      with d have "loss_param ag1 * (1 + ?d) \<le> 1 * (1 + ?d)"
        by (intro mult_right_mono) simp_all
      with a True d1 show ?thesis by (simp add: anneal_beta_def)
    next
      case False
      with a le show ?thesis by (simp add: anneal_beta_def)
    qed
  qed
next
  case (reaches_load_model ag ag1 fs path ag2)
  with load_model_frame(2) [OF reaches_load_model.hyps(2)] show ?case by simp
qed

lemma reaches_beta_fixed:
  assumes "reaches c ag ag'" and "1 \<le> loss_param ag"
  shows "loss_param ag' = loss_param ag"
  using assms
proof (induction rule: reaches.induct)
  case (reaches_refl ag)
  then show ?case by simp
next
  case (reaches_act ag ag1 u sampled state evaluate a ag2)
  with act_Inr [OF reaches_act.hyps(2)] show ?case by simp
next
  case (reaches_remember ag ag1 t ag2)
  with remember_frame(2) [OF reaches_remember.hyps(2)] show ?case by simp
next
  case (reaches_train ag ag1 draws epochs r ag2)
  then have "loss_param ag1 = loss_param ag" and "1 \<le> loss_param ag" by simp_all
  with train_loss_param [OF reaches_train.hyps(2)] show ?case
    by (auto simp: anneal_beta_def)
next
  case (reaches_load_model ag ag1 fs path ag2)
  with load_model_frame(2) [OF reaches_load_model.hyps(2)] show ?case by simp
qed

text \<open>
  Claim C6, as the code has it. A training pass that proceeds multiplies beta by
  \<open>1 + beta_decay\<close> when beta is below one and leaves it unchanged otherwise; nothing
  clamps the product. Over any sequence of calls, a beta that starts at most one with a
  non-negative decay stays at most \<open>1 + beta_decay\<close>, and a beta that has reached one no
  longer changes.
\<close>

theorem beta_annealing:
  "(train_epoch c draw ag = Inr (fl, ag1) \<longrightarrow>
      loss_param ag1 = (if loss_param ag < 1 then loss_param ag * (1 + loss_param_decay ag)
                        else loss_param ag))
   \<and> (reaches c ag ag' \<and> loss_param ag \<le> 1 \<and> 0 \<le> loss_param_decay ag \<longrightarrow>
        loss_param ag' \<le> 1 + loss_param_decay ag)
   \<and> (reaches c ag ag' \<and> 1 \<le> loss_param ag \<longrightarrow> loss_param ag' = loss_param ag)"
proof (intro conjI impI)
  assume "train_epoch c draw ag = Inr (fl, ag1)"
  from train_epoch_frame(2) [OF this]
  show "loss_param ag1 = (if loss_param ag < 1 then loss_param ag * (1 + loss_param_decay ag)
                          else loss_param ag)"
    by (simp add: anneal_beta_def)
next
  assume "reaches c ag ag' \<and> loss_param ag \<le> 1 \<and> 0 \<le> loss_param_decay ag"
  then show "loss_param ag' \<le> 1 + loss_param_decay ag"
    by (intro reaches_beta_bound [of c ag ag']) simp_all
next
  assume "reaches c ag ag' \<and> 1 \<le> loss_param ag"
  then show "loss_param ag' = loss_param ag"
    by (intro reaches_beta_fixed [of c ag ag']) simp_all
qed

text \<open>The example pass from a beta of two fifths, and the same pass from a beta of one.\<close>

theorem beta_annealing_witness:
  "train_epoch ex_collab [0, 0] ex_ready = Inr (49 / 64, ex_trained)
   \<and> loss_param ex_ready < 1
   \<and> loss_param ex_trained = loss_param ex_ready * (1 + loss_param_decay ex_ready)
   \<and> reaches ex_collab ex_ready ex_trained
   \<and> loss_param ex_ready \<le> 1 \<and> 0 \<le> loss_param_decay ex_ready
   \<and> loss_param ex_trained \<le> 1 + loss_param_decay ex_ready
   \<and> reaches ex_collab (ex_ready\<lparr>loss_param := 1\<rparr>) (ex_trained\<lparr>loss_param := 1\<rparr>)
   \<and> 1 \<le> loss_param (ex_ready\<lparr>loss_param := 1\<rparr>)
   \<and> loss_param (ex_trained\<lparr>loss_param := 1\<rparr>) = loss_param (ex_ready\<lparr>loss_param := 1\<rparr>)"
proof -
  have te: "train_epoch ex_collab [0, 0] ex_ready = Inr (49 / 64, ex_trained)"
    by (simp add: ex_train_epoch ex_trained_value)
  have b: "loss_param ex_ready < 1" "loss_param ex_ready \<le> 1" "0 \<le> loss_param_decay ex_ready"
    by (simp_all add: ex_ready_value ex_agent_value)
  have r1: "reaches ex_collab ex_ready ex_trained"
    by (rule reaches_train [OF reaches_refl ex_train])
  have "train ex_collab (\<lambda>epoch. [0, 0]) 1 (ex_ready\<lparr>loss_param := 1\<rparr>)
          = Inr (Loss (49 / 64), ex_trained\<lparr>loss_param := 1\<rparr>)"
    unfolding ex_train_beta by simp
  then have r2: "reaches ex_collab (ex_ready\<lparr>loss_param := 1\<rparr>) (ex_trained\<lparr>loss_param := 1\<rparr>)"
    by (rule reaches_train [OF reaches_refl])
  have b2: "1 \<le> loss_param (ex_ready\<lparr>loss_param := 1\<rparr>)" by simp
  from beta_annealing [of ex_collab "[0, 0]" ex_ready "49 / 64" ex_trained ex_trained] te b r1
  have "loss_param ex_trained = loss_param ex_ready * (1 + loss_param_decay ex_ready)"
    and "loss_param ex_trained \<le> 1 + loss_param_decay ex_ready" by simp_all
  moreover
  from beta_annealing [of ex_collab "[0, 0]" "ex_ready\<lparr>loss_param := 1\<rparr>" "49 / 64" ex_trained
      "ex_trained\<lparr>loss_param := 1\<rparr>"] r2 b2
  have "loss_param (ex_trained\<lparr>loss_param := 1\<rparr>) = loss_param (ex_ready\<lparr>loss_param := 1\<rparr>)"
    by blast
  ultimately show ?thesis using te b r1 r2 b2 by blast
qed

text \<open>From a beta just below one, a single pass of the example agent leaves beta above one.\<close>

theorem beta_exceeds_one:
  "loss_param (ex_ready\<lparr>loss_param := 99999 / 100000\<rparr>) \<le> 1
   \<and> (case train ex_collab (\<lambda>epoch. [0, 0]) 1 (ex_ready\<lparr>loss_param := 99999 / 100000\<rparr>) of
         Inl e \<Rightarrow> False
       | Inr (r, ag') \<Rightarrow> 1 < loss_param ag')"
  unfolding ex_train_beta by simp

section \<open>The soft update of the target network\<close>

lemma soft_update_tensor_nth:
  assumes "length a = length b" and "j < length a"
  shows "soft_update_tensor t a b ! j = (1 - t) * a ! j + t * b ! j"
  using assms by (simp add: soft_update_tensor_def Let_def algebra_simps)

lemma soft_update_tensor_length:
  "length a = length b \<Longrightarrow> length (soft_update_tensor t a b) = length a"
  by (simp add: soft_update_tensor_def Let_def)

text \<open>
  Claim C7. \<^verbatim>\<open>update_target\<close> sets every entry of every target parameter tensor to
  \<open>(1 - tau) * old_target + tau * online\<close>, keeps the shapes, and changes neither the
  online parameters nor any other field of the agent.
\<close>

theorem soft_target_update:
  assumes sh: "shapes (target_dqn ag) = shapes (dqn ag)"
    and i: "i < length (target_dqn ag)" and j: "j < length (target_dqn ag ! i)"
  shows "target_dqn (update_target ag) ! i ! j
           = (1 - tau ag) * target_dqn ag ! i ! j + tau ag * dqn ag ! i ! j
         \<and> shapes (target_dqn (update_target ag)) = shapes (target_dqn ag)
         \<and> dqn (update_target ag) = dqn ag
         \<and> update_target ag = ag\<lparr>target_dqn := target_dqn (update_target ag)\<rparr>"
proof -
  from sh have len: "length (target_dqn ag) = length (dqn ag)"
    unfolding shapes_def by (rule map_eq_imp_length_eq)
  from sh have each: "\<forall>k<length (target_dqn ag). length (target_dqn ag ! k) = length (dqn ag ! k)"
    unfolding shapes_def by (metis len nth_map)
  have t: "target_dqn (update_target ag)
             = map (\<lambda>(a, b). soft_update_tensor (tau ag) a b) (zip (target_dqn ag) (dqn ag))"
    using len by (simp add: update_target_def)
  have "target_dqn (update_target ag) ! i = soft_update_tensor (tau ag) (target_dqn ag ! i) (dqn ag ! i)"
    using t i len by simp
  with each i j have nth: "target_dqn (update_target ag) ! i ! j
           = (1 - tau ag) * target_dqn ag ! i ! j + tau ag * dqn ag ! i ! j"
    by (simp add: soft_update_tensor_nth)
  have "shapes (target_dqn (update_target ag)) = shapes (target_dqn ag)"
    unfolding shapes_def
  proof (rule nth_equalityI)
    show "length (map length (target_dqn (update_target ag))) = length (map length (target_dqn ag))"
      using t len by simp
  next
    fix k assume "k < length (map length (target_dqn (update_target ag)))"
    with t len have k: "k < length (target_dqn ag)" by simp
    with each have "length (target_dqn ag ! k) = length (dqn ag ! k)" by simp
    with k t len show "map length (target_dqn (update_target ag)) ! k = map length (target_dqn ag) ! k"
      by (simp add: soft_update_tensor_length)
  qed
  with nth show ?thesis by (simp add: update_target_def)
qed

text \<open>The example agent with online parameters that differ from the target ones.\<close>

theorem soft_target_update_witness:
  "shapes (target_dqn (ex_agent\<lparr>dqn := [[1, 2]]\<rparr>)) = shapes (dqn (ex_agent\<lparr>dqn := [[1, 2]]\<rparr>))
   \<and> (0 :: nat) < length (target_dqn (ex_agent\<lparr>dqn := [[1, 2]]\<rparr>))
   \<and> (1 :: nat) < length (target_dqn (ex_agent\<lparr>dqn := [[1, 2]]\<rparr>) ! 0)
   \<and> target_dqn (ex_agent\<lparr>dqn := [[1, 2]]\<rparr>) = [[3, 1]]
   \<and> tau (ex_agent\<lparr>dqn := [[1, 2]]\<rparr>) = 1 / 100
   \<and> target_dqn (update_target (ex_agent\<lparr>dqn := [[1, 2]]\<rparr>)) ! 0 ! 1 = 101 / 100
   \<and> dqn (update_target (ex_agent\<lparr>dqn := [[1, 2]]\<rparr>)) = [[1, 2]]"
proof -
  let ?ag = "ex_agent\<lparr>dqn := [[1, 2]]\<rparr>"
  have h1: "shapes (target_dqn ?ag) = shapes (dqn ?ag)" by (simp add: shapes_def ex_agent_value)
  have h2: "(0 :: nat) < length (target_dqn ?ag)" by (simp add: ex_agent_value)
  have h3: "(1 :: nat) < length (target_dqn ?ag ! 0)" by (simp add: ex_agent_value)
  have v: "target_dqn ?ag = [[3, 1]]" "tau ?ag = 1 / 100" by (simp_all add: ex_agent_value)
  from soft_target_update [OF h1 h2 h3]
  have "target_dqn (update_target ?ag) ! 0 ! 1 = 101 / 100" and "dqn (update_target ?ag) = [[1, 2]]"
    by (simp_all add: ex_agent_value)
  with h1 h2 h3 v show ?thesis by blast
qed

section \<open>Action selection\<close>

lemma argmax_Inr:
  assumes "argmax q = Inr a"
  shows "a < length q" and "q ! a = Max (set q)" and "\<forall>k<a. q ! k \<noteq> Max (set q)"
proof -
  let ?P = "\<lambda>x. x \<noteq> Max (set q)"
  from assms have ne: "q \<noteq> []" and a: "a = length (takeWhile ?P q)"
    by (auto simp: argmax_def split: if_splits)
  from ne have "Max (set q) \<in> set q" by (intro Max_in) simp_all
  then have "\<not> (\<forall>x\<in>set q. ?P x)" by blast
  then have "takeWhile ?P q \<noteq> q" by (simp add: takeWhile_eq_all_conv)
  moreover have "length (takeWhile ?P q) \<le> length q" by (rule length_takeWhile_le)
  ultimately have lt: "length (takeWhile ?P q) < length q"
    by (metis le_neq_implies_less takeWhile_eq_take take_all_iff order_refl)
  with a show "a < length q" by simp
  from nth_length_takeWhile [OF lt] a show "q ! a = Max (set q)" by simp
  show "\<forall>k<a. q ! k \<noteq> Max (set q)"
  proof (intro allI impI)
    fix k assume "k < a"
    with a have k: "k < length (takeWhile ?P q)" by simp
    then have "takeWhile ?P q ! k \<in> set (takeWhile ?P q)" by (rule nth_mem)
    then have "?P (takeWhile ?P q ! k)" by (rule set_takeWhileD [THEN conjunct2])
    with k show "q ! k \<noteq> Max (set q)" by (simp add: takeWhile_nth)
  qed
qed

text \<open>
  Claim C8, as the code has it. Every call of \<^verbatim>\<open>act\<close> that returns, evaluating or
  not, leaves epsilon at \<open>max (epsilon * epsilon_decay) min_epsilon\<close>, hence at least
  \<open>min_epsilon\<close>; epsilon does not increase when it was non-negative and at least
  \<open>min_epsilon\<close> and the decay factor is at most one; and with
  \<^verbatim>\<open>evaluate=True\<close> the returned action is the first index of the largest action
  value of the online network.
\<close>

theorem act_epsilon_and_greedy:
  assumes "act c u sampled state evaluate ag = Inr (a, ag')"
  shows "epsilon ag' = max (epsilon ag * epsilon_decay ag) (min_epsilon ag)
         \<and> min_epsilon ag' \<le> epsilon ag'
         \<and> (0 \<le> epsilon ag \<and> min_epsilon ag \<le> epsilon ag \<and> epsilon_decay ag \<le> 1 \<longrightarrow>
              epsilon ag' \<le> epsilon ag)
         \<and> (evaluate \<longrightarrow>
              a < length (forward c (dqn ag) state)
              \<and> forward c (dqn ag) state ! a = Max (set (forward c (dqn ag) state))
              \<and> (\<forall>k<a. forward c (dqn ag) state ! k \<noteq> Max (set (forward c (dqn ag) state))))"
proof -
  note ag' = act_Inr [OF assms]
  have e: "epsilon ag' = max (epsilon ag * epsilon_decay ag) (min_epsilon ag)"
    and m: "min_epsilon ag' = min_epsilon ag" using ag' by simp_all
  have mono: "epsilon ag' \<le> epsilon ag"
    if "0 \<le> epsilon ag \<and> min_epsilon ag \<le> epsilon ag \<and> epsilon_decay ag \<le> 1"
  proof -
    from that have "epsilon ag * epsilon_decay ag \<le> epsilon ag * 1"
      by (intro mult_left_mono) simp_all
    with that e show ?thesis by simp
  qed
  have greedy: "a < length (forward c (dqn ag) state)
              \<and> forward c (dqn ag) state ! a = Max (set (forward c (dqn ag) state))
              \<and> (\<forall>k<a. forward c (dqn ag) state ! k \<noteq> Max (set (forward c (dqn ag) state)))"
    if evaluate
  proof -
    from assms that have "argmax (forward c (dqn ag) state) = Inr a"
      by (auto simp: act_def Let_def split: sum.splits)
    from argmax_Inr [OF this] show ?thesis by blast
  qed
  from e m mono greedy show ?thesis by simp
qed

text \<open>An evaluating call on the example agent with a random draw below epsilon.\<close>

theorem act_epsilon_and_greedy_witness:
  "act ex_collab (1 / 4) 1 [0] True (ex_agent\<lparr>epsilon := 1 / 2\<rparr>)
     = Inr (0, ex_agent\<lparr>epsilon := 1999 / 4000\<rparr>)
   \<and> 1 / 4 < epsilon (ex_agent\<lparr>epsilon := 1999 / 4000\<rparr>)
   \<and> min_epsilon ex_agent \<le> epsilon (ex_agent\<lparr>epsilon := 1999 / 4000\<rparr>)
   \<and> 0 \<le> epsilon (ex_agent\<lparr>epsilon := 1 / 2\<rparr>)
   \<and> min_epsilon (ex_agent\<lparr>epsilon := 1 / 2\<rparr>) \<le> epsilon (ex_agent\<lparr>epsilon := 1 / 2\<rparr>)
   \<and> epsilon_decay (ex_agent\<lparr>epsilon := 1 / 2\<rparr>) \<le> 1
   \<and> epsilon (ex_agent\<lparr>epsilon := 1999 / 4000\<rparr>) \<le> epsilon (ex_agent\<lparr>epsilon := 1 / 2\<rparr>)
   \<and> forward ex_collab (dqn ex_agent) [0] ! 0 = Max (set (forward ex_collab (dqn ex_agent) [0]))"
proof -
  let ?ag = "ex_agent\<lparr>epsilon := 1 / 2\<rparr>" and ?ag' = "ex_agent\<lparr>epsilon := 1999 / 4000\<rparr>"
  have a: "act ex_collab (1 / 4) 1 [0] True ?ag = Inr (0, ?ag')"
    unfolding ex_act by simp
  have h: "0 \<le> epsilon ?ag" "min_epsilon ?ag \<le> epsilon ?ag" "epsilon_decay ?ag \<le> 1"
    "1 / 4 < epsilon ?ag'"
    by (simp_all add: ex_agent_value)
  from act_epsilon_and_greedy [OF a] h
  have "min_epsilon ex_agent \<le> epsilon ?ag'" and "epsilon ?ag' \<le> epsilon ?ag"
    and "forward ex_collab (dqn ex_agent) [0] ! 0 = Max (set (forward ex_collab (dqn ex_agent) [0]))"
    by simp_all
  with a h show ?thesis by blast
qed

text \<open>An agent whose epsilon starts below the floor: the first call raises epsilon to the floor.\<close>

theorem act_raises_small_epsilon:
  "(case act ex_collab (1 / 4) 1 [0] True (ex_agent\<lparr>epsilon := 1 / 1000\<rparr>) of
      Inl e \<Rightarrow> False
    | Inr (a, ag') \<Rightarrow> epsilon (ex_agent\<lparr>epsilon := 1 / 1000\<rparr>) < epsilon ag')"
  unfolding ex_act by simp

section \<open>One pass per training call\<close>

text \<open>
  Claim C9. A call \<^verbatim>\<open>train(epochs=k)\<close> with \<open>k \<ge> 1\<close> that passes the
  readiness check equals \<^verbatim>\<open>train(epochs=1)\<close>: the loop body runs once. That one
  pass draws one batch from the store; it raises when the first part of the pass raises;
  otherwise it returns the mean of the weighted per-sample losses and leaves the agent with
  beta annealed once, the priorities of the sampled indices overwritten with the absolute
  per-sample losses, the online parameters and the optimizer state after one optimizer
  step on the gradients clamped to \<open>[-100, 100]\<close>, and the target network after one
  soft update towards the new online parameters.
\<close>

theorem train_single_iteration:
  assumes "1 \<le> epochs" and "batch_size ag \<le> rb_size (memory ag)"
  shows "train c draws epochs ag =
           (case train_epoch c (draws 0) ag of
              Inl e \<Rightarrow> Inl e
            | Inr (final_loss, ag') \<Rightarrow> Inr (Loss final_loss, ag'))
         \<and> train c draws epochs ag = train c draws 1 ag
         \<and> (\<forall>e. train_forward c (draws 0) ag = Inl e \<longrightarrow> train c draws epochs ag = Inl e)
         \<and> (\<forall>states actions rewards next_states dones priorities indexes curr_q target w.
               train_forward c (draws 0) ag =
                 Inr ((states, actions, rewards, next_states, dones, priorities, indexes), curr_q, target, w)
               \<longrightarrow>
                 rb_sample (memory ag) (batch_size ag) (draws 0) =
                   Inr (states, actions, rewards, next_states, dones, priorities, indexes)
                 \<and> train c draws epochs ag =
                     Inr (Loss (mean (map (\<lambda>(l, x). l * x) (zip (mse_loss curr_q target) w))),
                          update_target
                            (ag\<lparr>loss_param :=
                                  loss_param ag
                                  * (if loss_param ag < 1 then 1 + loss_param_decay ag else 1),
                                memory :=
                                  rb_update_priority (memory ag) indexes
                                    (map abs (mse_loss curr_q target)),
                                dqn :=
                                  snd (opt_step c (optimizer ag) (dqn ag)
                                        (clamp_grads (backward c (dqn ag) states actions target w))),
                                optimizer :=
                                  fst (opt_step c (optimizer ag) (dqn ag)
                                        (clamp_grads (backward c (dqn ag) states actions target w)))\<rparr>)))
         \<and> (\<forall>grads. clamp_grads grads = map (map (\<lambda>x. min (max x (- 100)) 100)) grads)"
proof -
  from assms(1) have "[0..<epochs] = 0 # [1..<epochs]"
    by (simp add: upt_conv_Cons)
  with assms(2) have t: "train c draws epochs ag =
           (case train_epoch c (draws 0) ag of
              Inl e \<Rightarrow> Inl e
            | Inr (final_loss, ag') \<Rightarrow> Inr (Loss final_loss, ag'))"
    by (simp add: train_def)
  moreover from assms(2) have "train c draws 1 ag =
           (case train_epoch c (draws 0) ag of
              Inl e \<Rightarrow> Inl e
            | Inr (final_loss, ag') \<Rightarrow> Inr (Loss final_loss, ag'))"
    by (simp add: train_def)
  ultimately have one: "train c draws epochs ag = train c draws 1 ag" by simp
  have err: "\<forall>e. train_forward c (draws 0) ag = Inl e \<longrightarrow> train c draws epochs ag = Inl e"
    unfolding t by (simp add: train_epoch_def)
  have ok: "rb_sample (memory ag) (batch_size ag) (draws 0) =
                   Inr (states, actions, rewards, next_states, dones, priorities, indexes)
                 \<and> train c draws epochs ag =
                     Inr (Loss (mean (map (\<lambda>(l, x). l * x) (zip (mse_loss curr_q target) w))),
                          update_target
                            (ag\<lparr>loss_param :=
                                  loss_param ag
                                  * (if loss_param ag < 1 then 1 + loss_param_decay ag else 1),
                                memory :=
                                  rb_update_priority (memory ag) indexes
                                    (map abs (mse_loss curr_q target)),
                                dqn :=
                                  snd (opt_step c (optimizer ag) (dqn ag)
                                        (clamp_grads (backward c (dqn ag) states actions target w))),
                                optimizer :=
                                  fst (opt_step c (optimizer ag) (dqn ag)
                                        (clamp_grads (backward c (dqn ag) states actions target w)))\<rparr>))"
    if tf: "train_forward c (draws 0) ag =
                 Inr ((states, actions, rewards, next_states, dones, priorities, indexes), curr_q, target, w)"
    for states actions rewards next_states dones priorities indexes curr_q target w
    unfolding t train_epoch_Inr_explicit [OF tf] using train_forward_Inr(1) [OF tf] by simp
  have cl: "\<forall>grads. clamp_grads grads = map (map (\<lambda>x. min (max x (- 100)) 100)) grads"
    by (simp add: clamp_grads_def clamp_def)
  from t one err ok cl show ?thesis by blast
qed

text \<open>Five epochs requested of the example agent, with gradients of two hundred: one pass runs, the gradients are clamped to one hundred, and the optimizer has made one step.\<close>

theorem train_single_iteration_witness:
  "(1 :: nat) \<le> 5 \<and> batch_size ex_ready \<le> rb_size (memory ex_ready)
   \<and> train_forward ex_steep [0, 0] ex_ready =
       Inr (([[0], [0]], [0, 0], [7 / 4, 7 / 4], [[0], [0]], [False, False], [1 / 2, 1 / 2], [0, 0]),
            [3, 3], [17 / 8, 17 / 8], [1, 1])
   \<and> rb_sample (memory ex_ready) (batch_size ex_ready) [0, 0] =
       Inr ([[0], [0]], [0, 0], [7 / 4, 7 / 4], [[0], [0]], [False, False], [1 / 2, 1 / 2], [0, 0])
   \<and> train ex_steep (\<lambda>epoch. [0, 0]) 5 ex_ready =
       Inr (Loss (49 / 64),
            ex_ready\<lparr>loss_param := 50001 / 125000,
                     memory := (memory ex_ready)\<lparr>rb_priorities := [30629 / 40000, 1, 0]\<rparr>,
                     dqn := [[- 97, - 99]], optimizer := 1, target_dqn := [[2, 0]]\<rparr>)
   \<and> train ex_steep (\<lambda>epoch. [0, 0]) 5 ex_ready = train ex_steep (\<lambda>epoch. [0, 0]) 1 ex_ready"
proof -
  have h1: "(1 :: nat) \<le> 5" by simp
  have h2: "batch_size ex_ready \<le> rb_size (memory ex_ready)"
    by (simp add: ex_ready_value ex_agent_value)
  note t = train_single_iteration [OF h1 h2, of ex_steep "\<lambda>epoch. [0, 0]"]
  from t have one: "train ex_steep (\<lambda>epoch. [0, 0]) 5 ex_ready = train ex_steep (\<lambda>epoch. [0, 0]) 1 ex_ready"
    by (elim conjE)
  from t ex_steep_forward
  have s: "rb_sample (memory ex_ready) (batch_size ex_ready) [0, 0] =
       Inr ([[0], [0]], [0, 0], [7 / 4, 7 / 4], [[0], [0]], [False, False], [1 / 2, 1 / 2], [0, 0])"
    by blast
  from t ex_steep_forward
  have "train ex_steep (\<lambda>epoch. [0, 0]) 5 ex_ready =
          Inr (Loss (mean (map (\<lambda>(l, x). l * x) (zip (mse_loss [3, 3] [17 / 8, 17 / 8]) [1, 1]))),
               update_target
                 (ex_ready\<lparr>loss_param :=
                             loss_param ex_ready
                             * (if loss_param ex_ready < 1 then 1 + loss_param_decay ex_ready else 1),
                           memory :=
                             rb_update_priority (memory ex_ready) [0, 0]
                               (map abs (mse_loss [3, 3] [17 / 8, 17 / 8])),
                           dqn :=
                             snd (opt_step ex_steep (optimizer ex_ready) (dqn ex_ready)
                                   (clamp_grads (backward ex_steep (dqn ex_ready) [[0], [0]] [0, 0]
                                      [17 / 8, 17 / 8] [1, 1]))),
                           optimizer :=
                             fst (opt_step ex_steep (optimizer ex_ready) (dqn ex_ready)
                                   (clamp_grads (backward ex_steep (dqn ex_ready) [[0], [0]] [0, 0]
                                      [17 / 8, 17 / 8] [1, 1])))\<rparr>))"
    by blast
  also have "\<dots> = Inr (Loss (49 / 64),
            ex_ready\<lparr>loss_param := 50001 / 125000,
                     memory := (memory ex_ready)\<lparr>rb_priorities := [30629 / 40000, 1, 0]\<rparr>,
                     dqn := [[- 97, - 99]], optimizer := 1, target_dqn := [[2, 0]]\<rparr>)"
    by (simp add: ex_ready_value ex_agent_value ex_steep_def ex_collab_def mse_loss_def mean_def
        rb_update_priority_def clamp_grads_def clamp_def update_target_def soft_update_tensor_def
        Let_def power2_eq_square)
  finally show ?thesis using h1 h2 ex_steep_forward s one by blast
qed

section \<open>Synchronized networks\<close>

lemma copy_params_same_shapes:
  "shapes dst = shapes src \<Longrightarrow> copy_params dst src = src"
proof (induction dst arbitrary: src)
  case Nil
  then show ?case by (simp add: copy_params_def shapes_def)
next
  case (Cons a dst)
  then obtain b src' where src: "src = b # src'" by (cases src) (auto simp: shapes_def)
  with Cons.prems have ab: "length a = length b" and rest: "shapes dst = shapes src'"
    by (simp_all add: shapes_def)
  from ab have "copy_tensor a b = b" by (simp add: copy_tensor_def map_snd_zip)
  moreover from Cons.IH [OF rest] have "copy_params dst src' = src'" .
  ultimately show ?case using src by (simp add: copy_params_def)
qed

text \<open>
  Claim C10. After \<^verbatim>\<open>load_model(path)\<close> both networks hold the snapshot stored at
  the path, so the target parameters equal the online ones; and a freshly constructed
  agent, whose two networks have the same shapes, holds identical parameters in both.
\<close>

theorem networks_synchronized:
  "(load_model fs path ag = Inr ag' \<longrightarrow> target_dqn ag' = dqn ag' \<and> fs path = Some (dqn ag'))
   \<and> (shapes net1 = shapes net2 \<longrightarrow>
        dqn (DQNAgent c net1 net2 shape k bs mm n a b bd lr g t e0 ed em)
          = target_dqn (DQNAgent c net1 net2 shape k bs mm n a b bd lr g t e0 ed em))"
proof (intro conjI impI)
  assume "load_model fs path ag = Inr ag'"
  from load_model_Inr [OF this] show "target_dqn ag' = dqn ag'" by auto
next
  assume "load_model fs path ag = Inr ag'"
  from load_model_Inr [OF this] show "fs path = Some (dqn ag')" by auto
next
  assume "shapes net1 = shapes net2"
  then show "dqn (DQNAgent c net1 net2 shape k bs mm n a b bd lr g t e0 ed em)
          = target_dqn (DQNAgent c net1 net2 shape k bs mm n a b bd lr g t e0 ed em)"
    by (simp add: DQNAgent_def Let_def copy_params_same_shapes)
qed

text \<open>Loading a snapshot into the example agent, and the example agent as constructed.\<close>

theorem networks_synchronized_witness:
  "load_model [''model.pt'' \<mapsto> [[5, 7]]] ''model.pt'' ex_agent
     = Inr (ex_agent\<lparr>dqn := [[5, 7]], target_dqn := [[5, 7]]\<rparr>)
   \<and> target_dqn (ex_agent\<lparr>dqn := [[5, 7]], target_dqn := [[5, 7]]\<rparr>)
       = dqn (ex_agent\<lparr>dqn := [[5, 7]], target_dqn := [[5, 7]]\<rparr>)
   \<and> [''model.pt'' \<mapsto> [[5, 7 :: real]]] ''model.pt''
       = Some (dqn (ex_agent\<lparr>dqn := [[5, 7]], target_dqn := [[5, 7]]\<rparr>))
   \<and> shapes [[0, 0]] = shapes [[3, 1]]
   \<and> dqn ex_agent = target_dqn ex_agent"
proof -
  let ?fs = "[''model.pt'' \<mapsto> [[5, 7 :: real]]]"
  let ?ag' = "ex_agent\<lparr>dqn := [[5, 7]], target_dqn := [[5, 7]]\<rparr>"
  have l: "load_model ?fs ''model.pt'' ex_agent = Inr ?ag'"
    by (simp add: load_model_def load_state_dict_def shapes_def ex_agent_value)
  have sh: "shapes [[0, 0]] = shapes [[3, 1]]" by (simp add: shapes_def)
  note t = networks_synchronized [of ?fs "''model.pt''" ex_agent ?ag' "[[0, 0]]" "[[3, 1]]"
      ex_collab "[1]" 2 2 3 3 "6 / 10" "4 / 10" "2 / 100000" "7 / 10000" "1 / 2" "1 / 100" "1 / 2"
      "9995 / 10000" "1 / 100"]
  from t l have "target_dqn ?ag' = dqn ?ag'" and "?fs ''model.pt'' = Some (dqn ?ag')" by blast+
  moreover from t sh have "dqn ex_agent = target_dqn ex_agent" unfolding ex_agent_def by blast
  ultimately show ?thesis using l sh by blast
qed

end
